theory Spec2Isabelle
  imports Complex_Main
begin

section \<open>Python values, errors and sequences\<close>

text \<open>
  The three plotting windows of the toolbox (\<^verbatim>\<open>QTMplot\<close>, its \<^emph>\<open>dual\<close> version and the
  \<^emph>\<open>heatmap\<close> version) are embedded as functions on explicit window states.  An exception
  raised by the Python code is a value \<open>Inl e\<close>; a call that returns is \<open>Inr\<close> of the
  new state.  Samples are floating-point numbers in the source; they are modelled as
  reals, which is exact for the comparisons the code makes on finite values (rounding
  in the rectangle arithmetic of the image is not modelled).
\<close>

datatype py_error = IndexError | ValueError | OverflowError | OSError | AttributeError

text \<open>Indexing \<^verbatim>\<open>xs[i]\<close> of a list or array: negative indices count from the end.\<close>

definition py_index :: "'a list \<Rightarrow> int \<Rightarrow> py_error + 'a" where
  "py_index xs i =
     (if 0 \<le> i \<and> i < int (length xs) then Inr (xs ! nat i)
      else if i < 0 \<and> - int (length xs) \<le> i then Inr (xs ! nat (int (length xs) + i))
      else Inl IndexError)"

text \<open>Reading an attribute that is only assigned by a method (\<^verbatim>\<open>self.var_names\<close>).\<close>

definition py_attr :: "'a option \<Rightarrow> py_error + 'a" where
  "py_attr a = (case a of None \<Rightarrow> Inl AttributeError | Some v \<Rightarrow> Inr v)"

text \<open>
  Sequencing of statements that may raise: the first exception ends the computation.
\<close>

definition and_then :: "'e + 'a \<Rightarrow> ('a \<Rightarrow> 'e + 'b) \<Rightarrow> 'e + 'b" where
  "and_then m f = (case m of Inl e \<Rightarrow> Inl e | Inr v \<Rightarrow> f v)"

text \<open>The substring test \<^verbatim>\<open>sub in s\<close> on strings.\<close>

fun startswith :: "string \<Rightarrow> string \<Rightarrow> bool" where
  "startswith [] s = True"
| "startswith (c # cs) [] = False"
| "startswith (c # cs) (d # ds) = (c = d \<and> startswith cs ds)"

fun py_in :: "string \<Rightarrow> string \<Rightarrow> bool" where
  "py_in sub [] = (sub = [])"
| "py_in sub (c # cs) = (startswith sub (c # cs) \<or> py_in sub cs)"

section \<open>Parsed files\<close>

text \<open>
  A parsed file is the list returned by \<^verbatim>\<open>parse_data\<close>: one object per column, with the
  attributes \<^verbatim>\<open>name\<close> and \<^verbatim>\<open>data\<close>.
\<close>

record variable =
  name :: string
  data :: "real list"

text \<open>
  The source of \<^verbatim>\<open>parse_data\<close> (module \<^verbatim>\<open>qtmimport\<close>, imported by the three windows) is not
  available.  Following section 4.1 of the specification, a file is a header record of
  variable names followed by numeric records aligned to the header.
\<close>

record csv_file =
  header :: "string list"
  records :: "real list list"

text \<open>
  Modelled from the spec: the parser returns one series per name, in header order,
  holding that column (section 4.1 of the specification).  What it does with a record
  that is not aligned to the header is not fixed by the specification; the model reports
  it as an error.
\<close>

definition parse_data_spec :: "csv_file \<Rightarrow> py_error + variable list" where
  "parse_data_spec f =
     (if list_all (\<lambda>r. length r = length (header f)) (records f)
      then Inr (map (\<lambda>(i, n). \<lparr>name = n, data = map (\<lambda>r. r ! i) (records f)\<rparr>)
                    (enumerate 0 (header f)))
      else Inl ValueError)"

section \<open>Sweep geometry: period, reshape, image rectangle\<close>

text \<open>\<^verbatim>\<open>np.argmax\<close> of a boolean array: the index of the first \<open>True\<close>, and 0 when there is none.\<close>

definition argmax :: "bool list \<Rightarrow> nat" where
  "argmax bs = (let k = length (takeWhile Not bs) in if k < length bs then k else 0)"

text \<open>\<^verbatim>\<open>length = np.argmax(self.x != self.x[0])\<close>; reading \<^verbatim>\<open>self.x[0]\<close> of an empty array raises.\<close>

definition sweep_length :: "real list \<Rightarrow> py_error + nat" where
  "sweep_length xs =
     (case xs of [] \<Rightarrow> Inl IndexError
      | x0 # _ \<Rightarrow> Inr (argmax (map (\<lambda>v. v \<noteq> x0) xs)))"

text \<open>
  \<^verbatim>\<open>cutoff = max(int(len(self.z) / length), 1)\<close>.  The quotient is a float division by a
  numpy integer: dividing by zero gives infinity (or NaN for 0/0), and \<^verbatim>\<open>int\<close> of either
  raises.  For a positive divisor \<^verbatim>\<open>int\<close> truncates the quotient, which is the integer
  quotient for every array length a machine can hold.
\<close>

definition cutoff :: "nat \<Rightarrow> nat \<Rightarrow> py_error + nat" where
  "cutoff len_z len =
     (if len = 0 then (if len_z = 0 then Inl ValueError else Inl OverflowError)
      else Inr (max (len_z div len) 1))"

text \<open>
  \<^verbatim>\<open>np.reshape(a, (-1, n))\<close>: rows of \<open>n\<close> consecutive elements; it raises when \<open>n\<close> is zero
  or does not divide the size.  A two-dimensional array is the list of its rows.
\<close>

definition rows_of :: "nat \<Rightarrow> 'a list \<Rightarrow> 'a list list" where
  "rows_of n xs = map (\<lambda>i. take n (drop (i * n) xs)) [0..<length xs div n]"

definition np_reshape :: "'a list \<Rightarrow> nat \<Rightarrow> py_error + 'a list list" where
  "np_reshape xs n =
     (if n = 0 then Inl ValueError
      else if length xs mod n = 0 then Inr (rows_of n xs)
      else Inl ValueError)"

text \<open>The transpose \<^verbatim>\<open>.T\<close> of an array whose rows have \<open>n\<close> entries.\<close>

definition np_T :: "nat \<Rightarrow> 'a list list \<Rightarrow> 'a list list" where
  "np_T n rows = map (\<lambda>j. map (\<lambda>r. r ! j) rows) [0..<n]"

text \<open>\<^verbatim>\<open>np.min\<close> and \<^verbatim>\<open>np.max\<close> of an array; both raise on an array without elements.\<close>

definition np_min_max :: "real list list \<Rightarrow> py_error + (real \<times> real)" where
  "np_min_max g =
     (case concat g of [] \<Rightarrow> Inl ValueError
      | v # vs \<Rightarrow> Inr (fold min vs v, fold max vs v))"

type_synonym rect = "real \<times> real \<times> real \<times> real"

text \<open>The argument of \<^verbatim>\<open>setRect\<close> when the x axis is the fast one.\<close>

definition rect_fast_x :: "real list \<Rightarrow> real list \<Rightarrow> nat \<Rightarrow> py_error + rect" where
  "rect_fast_x xs ys len =
     and_then (py_index xs 0) (\<lambda>x0.
     and_then (py_index xs (int len)) (\<lambda>xl.
     and_then (py_index ys 0) (\<lambda>y0.
     and_then (py_index ys 1) (\<lambda>y1.
     and_then (py_index xs (- 1)) (\<lambda>xe.
     and_then (py_index ys (int len - 1)) (\<lambda>yl.
       Inr (x0 - 0.5 * (xl - x0), y0 - 0.5 * (y1 - y0),
            xe - x0 + (xl - x0), yl - y0 + (y1 - y0))))))))"

text \<open>The argument of \<^verbatim>\<open>setRect\<close> when \<^emph>\<open>Swap slow axis\<close> is checked.\<close>

definition rect_fast_y :: "real list \<Rightarrow> real list \<Rightarrow> nat \<Rightarrow> py_error + rect" where
  "rect_fast_y xs ys len =
     and_then (py_index xs 0) (\<lambda>x0.
     and_then (py_index xs 1) (\<lambda>x1.
     and_then (py_index ys 0) (\<lambda>y0.
     and_then (py_index ys (int len)) (\<lambda>yl.
     and_then (py_index xs (int len - 1)) (\<lambda>xl.
     and_then (py_index ys (- 1)) (\<lambda>ye.
       Inr (x0 - 0.5 * (x1 - x0), y0 - 0.5 * (yl - y0),
            xl - x0 + (x1 - x0), ye - y0 + (yl - y0))))))))"

text \<open>
  The image branch of the heatmap's \<^verbatim>\<open>updateData\<close>, from \<^emph>\<open>Find the sweep size and reshape
  the array\<close> to the colour-bar levels: the reshaped values, the rectangle and the levels.
\<close>

definition sweep_image ::
  "bool \<Rightarrow> real list \<Rightarrow> real list \<Rightarrow> real list \<Rightarrow> py_error + (real list list \<times> rect \<times> (real \<times> real))" where
  "sweep_image slow xs ys zs =
     (if \<not> slow then
        and_then (sweep_length xs) (\<lambda>len.
        and_then (cutoff (length zs) len) (\<lambda>c.
        and_then (np_reshape (take (len * c) zs) len) (\<lambda>g.
        and_then (rect_fast_x xs ys len) (\<lambda>r.
        and_then (np_min_max g) (\<lambda>lv. Inr (g, r, lv))))))
      else
        and_then (sweep_length ys) (\<lambda>len.
        and_then (cutoff (length zs) len) (\<lambda>c.
        and_then (np_reshape (take (len * c) zs) len) (\<lambda>g.
        and_then (rect_fast_y xs ys len) (\<lambda>r.
        and_then (np_min_max (np_T len g)) (\<lambda>lv. Inr (np_T len g, r, lv)))))))"

section \<open>The widgets the windows write to\<close>

text \<open>
  The widgets belong to Qt and pyqtgraph.  A combo box is its list of items and its current
  index, with Qt's behaviour for the three calls the windows make: \<^verbatim>\<open>clear\<close> leaves no
  current item, adding items to an empty box makes the first one current, and
  \<^verbatim>\<open>setCurrentIndex\<close> with an index that is no item leaves no current item.  A plot widget
  is the data last given to its line and its two axis labels.
\<close>

record combobox =
  items :: "string list"
  currentIndex :: int

definition clear :: "combobox \<Rightarrow> combobox" where
  "clear cb = \<lparr>items = [], currentIndex = - 1\<rparr>"

definition addItems :: "combobox \<Rightarrow> string list \<Rightarrow> combobox" where
  "addItems cb texts =
     \<lparr>items = items cb @ texts,
      currentIndex = (if items cb = [] \<and> texts \<noteq> [] then 0 else currentIndex cb)\<rparr>"

definition setCurrentIndex :: "combobox \<Rightarrow> int \<Rightarrow> combobox" where
  "setCurrentIndex cb i =
     cb\<lparr>currentIndex := (if 0 \<le> i \<and> i < int (length (items cb)) then i else - 1)\<rparr>"

datatype widget = GraphWidget | ImageWidget

section \<open>The heatmap window\<close>

text \<open>
  The attributes of the heatmap's \<^verbatim>\<open>MainWindow\<close> that its methods read or write.
  \<^verbatim>\<open>self.var_names\<close> is assigned for the first time when a file is loaded; \<open>h_graphs\<close> is
  the current widget of the stacked layout; \<open>h_data_line\<close>, \<open>h_image\<close>, \<open>h_rect\<close>,
  \<open>h_levels\<close> and the labels are what the plot widgets were last given.
\<close>

record heatmap =
  h_filename :: string
  h_data :: "variable list"
  h_var_names :: "string list option"
  h_xbox :: combobox
  h_ybox :: combobox
  h_zbox :: combobox
  h_slowbox :: bool
  h_livePlot :: bool
  h_file_path :: string
  h_graphs :: widget
  h_x :: "real list"
  h_y :: "real list"
  h_z :: "real list list"
  h_data_line :: "real list \<times> real list"
  h_image :: "real list list"
  h_rect :: rect
  h_levels :: "real \<times> real"
  h_graph_labels :: "string \<times> string"
  h_image_labels :: "string \<times> string"
  h_xindex :: int
  h_yindex :: int
  h_zindex :: int

text \<open>The block \<^verbatim>\<open>if newFile == True:\<close> of \<^verbatim>\<open>updateData\<close>.\<close>

definition h_newFile :: "heatmap \<Rightarrow> int \<Rightarrow> int \<Rightarrow> heatmap" where
  "h_newFile s xindex yindex =
     (let names = map name (h_data s);
          var_names = names @ [''<none>''];
          zi = int (length var_names) - 1
      in s\<lparr>h_var_names := Some var_names,
           h_xbox := setCurrentIndex (addItems (clear (h_xbox s)) names) xindex,
           h_ybox := setCurrentIndex (addItems (clear (h_ybox s)) names) yindex,
           h_zbox := setCurrentIndex (addItems (clear (h_zbox s)) var_names) zi,
           h_zindex := zi\<rparr>)"

text \<open>The branch for a file without data: the line plot is shown, cleared.\<close>

definition h_noData :: "heatmap \<Rightarrow> heatmap" where
  "h_noData s = s\<lparr>h_graphs := GraphWidget, h_x := [], h_y := [], h_data_line := ([], [])\<rparr>"

text \<open>The branch \<^emph>\<open>Show line plot\<close>.\<close>

definition h_linePlot :: "heatmap \<Rightarrow> string list \<Rightarrow> int \<Rightarrow> int \<Rightarrow> py_error + heatmap" where
  "h_linePlot s var_names xindex yindex =
     (let zi = int (length var_names) - 1;
          s1 = s\<lparr>h_graphs := GraphWidget, h_zindex := zi,
                  h_zbox := setCurrentIndex (h_zbox s) zi\<rparr>
      in and_then (py_index (h_data s1) xindex) (\<lambda>xv.
         and_then (py_index (h_data s1) yindex) (\<lambda>yv.
           Inr (s1\<lparr>h_x := data xv, h_y := data yv, h_data_line := (data xv, data yv)\<rparr>))))"

text \<open>The branch \<^emph>\<open>Show image plot\<close>.\<close>

definition h_imagePlot :: "heatmap \<Rightarrow> int \<Rightarrow> int \<Rightarrow> int \<Rightarrow> py_error + heatmap" where
  "h_imagePlot s xindex yindex zindex =
     and_then (py_index (h_data s) xindex) (\<lambda>xv.
     and_then (py_index (h_data s) yindex) (\<lambda>yv.
     and_then (py_index (h_data s) zindex) (\<lambda>zv.
     and_then (sweep_image (h_slowbox s) (data xv) (data yv) (data zv)) (\<lambda>(g, r, lv).
       Inr (s\<lparr>h_graphs := ImageWidget, h_x := data xv, h_y := data yv, h_z := g,
               h_image := g, h_rect := r, h_levels := lv\<rparr>)))))"

text \<open>The four \<^verbatim>\<open>setLabel\<close> calls that end \<^verbatim>\<open>updateData\<close>.\<close>

definition h_setLabels :: "heatmap \<Rightarrow> int \<Rightarrow> int \<Rightarrow> py_error + heatmap" where
  "h_setLabels s xindex yindex =
     and_then (py_attr (h_var_names s)) (\<lambda>var_names.
     and_then (py_index var_names xindex) (\<lambda>lx.
     and_then (py_index var_names yindex) (\<lambda>ly.
       Inr (s\<lparr>h_graph_labels := (lx, ly), h_image_labels := (lx, ly)\<rparr>))))"

text \<open>
  \<^verbatim>\<open>updateData(self, xindex, yindex, zindex=-1, newFile=False)\<close> in its three parts.
  The first stores the parsed file and, for a new file, rebuilds the selectors.
\<close>

definition h_load :: "heatmap \<Rightarrow> variable list \<Rightarrow> int \<Rightarrow> int \<Rightarrow> bool \<Rightarrow> heatmap" where
  "h_load s d xindex yindex newFile =
     (let s1 = s\<lparr>h_data := d\<rparr> in if newFile then h_newFile s1 xindex yindex else s1)"

text \<open>
  The second is the choice between the cleared plot, the line plot and the image, on the
  x series \<open>xv\<close> just read.
\<close>

definition h_plot :: "heatmap \<Rightarrow> variable \<Rightarrow> int \<Rightarrow> int \<Rightarrow> int \<Rightarrow> py_error + heatmap" where
  "h_plot s xv xindex yindex zindex =
     (if data xv = [] then Inr (h_noData s)
      else and_then (py_attr (h_var_names s)) (\<lambda>var_names.
        if zindex = - 1 \<or> zindex = int (length var_names) - 1
        then h_linePlot s var_names xindex yindex
        else h_imagePlot s xindex yindex zindex))"

text \<open>
  The whole method; the labels are the third part.  The first argument is
  \<^verbatim>\<open>parse_data\<close>, the result of reading a path now.
\<close>

definition h_updateData ::
  "(string \<Rightarrow> py_error + variable list) \<Rightarrow> heatmap \<Rightarrow> int \<Rightarrow> int \<Rightarrow> int \<Rightarrow> bool \<Rightarrow> py_error + heatmap" where
  "h_updateData parse_data s xindex yindex zindex newFile =
     and_then (parse_data (h_filename s)) (\<lambda>d.
       let s2 = h_load s d xindex yindex newFile
       in and_then (py_index (h_data s2) xindex) (\<lambda>xv.
          and_then (h_plot s2 xv xindex yindex zindex) (\<lambda>s3.
            h_setLabels s3 xindex yindex)))"

text \<open>The slots of the three axis selectors; \<^verbatim>\<open>autoRange\<close> only changes the view.\<close>

definition h_xboxindex :: "(string \<Rightarrow> py_error + variable list) \<Rightarrow> heatmap \<Rightarrow> int \<Rightarrow> py_error + heatmap" where
  "h_xboxindex parse_data s i =
     (let s1 = s\<lparr>h_xindex := i\<rparr> in h_updateData parse_data s1 (h_xindex s1) (h_yindex s1) (- 1) False)"

definition h_yboxindex :: "(string \<Rightarrow> py_error + variable list) \<Rightarrow> heatmap \<Rightarrow> int \<Rightarrow> py_error + heatmap" where
  "h_yboxindex parse_data s i =
     (let s1 = s\<lparr>h_yindex := i\<rparr> in h_updateData parse_data s1 (h_xindex s1) (h_yindex s1) (- 1) False)"

definition h_zboxindex :: "(string \<Rightarrow> py_error + variable list) \<Rightarrow> heatmap \<Rightarrow> int \<Rightarrow> py_error + heatmap" where
  "h_zboxindex parse_data s i =
     (let s1 = s\<lparr>h_zindex := i\<rparr>
      in and_then (py_attr (h_var_names s1)) (\<lambda>var_names.
           if h_zindex s1 = int (length var_names) - 1
           then h_updateData parse_data s1 (h_xindex s1) (h_yindex s1) (- 1) False
           else h_updateData parse_data s1 (h_xindex s1) (h_yindex s1) (h_zindex s1) False))"

section \<open>The watched folder\<close>

text \<open>
  What a poll tick can observe of the file system: the working directory, the entry
  \<^verbatim>\<open>Data\<close> in it (if any), and what \<^verbatim>\<open>parse_data\<close> returns for a path.  An entry is a file
  with its modification time, a name whose \<^verbatim>\<open>stat\<close> fails (a dangling link), a directory
  with its modification time and entries in the order the system lists them, or a
  directory that cannot be listed.  Paths are joined with a slash.
\<close>

datatype node = File real | Broken | Dir real "(string \<times> node) list" | Locked real

record world =
  cwd :: string
  data_dir :: "node option"
  parse_of :: "string \<Rightarrow> py_error + variable list"

definition path_join :: "string \<Rightarrow> string \<Rightarrow> string" where
  "path_join dp f = dp @ ''/'' @ f"

text \<open>\<^verbatim>\<open>os.path.abspath\<close> of a path: a relative path is taken from the working directory.\<close>

definition abspath :: "string \<Rightarrow> string \<Rightarrow> string" where
  "abspath wd p = (if startswith ''/'' p then p else path_join wd p)"

definition is_dir :: "node \<Rightarrow> bool" where
  "is_dir e = (case e of Dir t es \<Rightarrow> True | Locked t \<Rightarrow> True | File t \<Rightarrow> False | Broken \<Rightarrow> False)"

text \<open>
  \<^verbatim>\<open>[os.path.join(dp, f) for dp, dn, fn in os.walk('Data') for f in fn]\<close>, each path with
  its entry: the files of a directory first, then those of its subdirectories in turn.
  \<^verbatim>\<open>os.walk\<close> ignores a directory it cannot list, so a missing or unreadable folder
  contributes nothing.
\<close>

fun walk :: "string \<Rightarrow> node \<Rightarrow> (string \<times> node) list"
  and walk_subdirs :: "string \<Rightarrow> (string \<times> node) list \<Rightarrow> (string \<times> node) list" where
  "walk dp (Dir t es) =
     map (\<lambda>(f, e). (path_join dp f, e)) (filter (\<lambda>(f, e). \<not> is_dir e) es) @ walk_subdirs dp es"
| "walk dp (File t) = []"
| "walk dp Broken = []"
| "walk dp (Locked t) = []"
| "walk_subdirs dp [] = []"
| "walk_subdirs dp ((f, e) # es) =
     (if is_dir e then walk (path_join dp f) e else []) @ walk_subdirs dp es"

definition walk_data :: "node option \<Rightarrow> (string \<times> node) list" where
  "walk_data folder = (case folder of None \<Rightarrow> [] | Some e \<Rightarrow> walk ''Data'' e)"

text \<open>\<^verbatim>\<open>os.listdir(folder)\<close> with each name's entry; it raises unless the folder can be listed.\<close>

definition listdir :: "node option \<Rightarrow> py_error + (string \<times> node) list" where
  "listdir folder = (case folder of Some (Dir t es) \<Rightarrow> Inr es | _ \<Rightarrow> Inl OSError)"

definition getmtime :: "node \<Rightarrow> py_error + real" where
  "getmtime e = (case e of File t \<Rightarrow> Inr t | Dir t es \<Rightarrow> Inr t | Locked t \<Rightarrow> Inr t | Broken \<Rightarrow> Inl OSError)"

text \<open>The loop \<^verbatim>\<open>stamps.append(os.path.getmtime(file))\<close>, pairing every file with its stamp.\<close>

fun stamp_all :: "(string \<times> node) list \<Rightarrow> py_error + (string \<times> real) list" where
  "stamp_all [] = Inr []"
| "stamp_all ((f, e) # fs) =
     and_then (getmtime e) (\<lambda>s. and_then (stamp_all fs) (\<lambda>r. Inr ((f, s) # r)))"

text \<open>
  The loop \<^verbatim>\<open>for f, s in zip(files, stamps)\<close>, started with \<^verbatim>\<open>max_stamp = 0\<close> and
  \<^verbatim>\<open>latest_file = ''\<close>.
\<close>

fun latest_loop :: "(string \<times> real) list \<Rightarrow> real \<Rightarrow> string \<Rightarrow> string" where
  "latest_loop [] max_stamp latest_file = latest_file"
| "latest_loop ((f, s) # fs) max_stamp latest_file =
     (if py_in ''.csv'' f then
        (if s > max_stamp then latest_loop fs s f else latest_loop fs max_stamp latest_file)
      else latest_loop fs max_stamp latest_file)"

text \<open>
  The first half of \<^verbatim>\<open>livePlotting\<close> in the dual and heatmap windows, up to the choice of
  \<^verbatim>\<open>latest_file\<close>; the empty string stands for no file found.
\<close>

definition latest_file_walk :: "world \<Rightarrow> py_error + string" where
  "latest_file_walk w =
     and_then (stamp_all (walk_data (data_dir w))) (\<lambda>stamped. Inr (latest_loop stamped 0 []))"

text \<open>The same in \<^verbatim>\<open>QTMplot\<close>, which lists the folder itself and no subfolder.\<close>

definition latest_file_listdir :: "world \<Rightarrow> py_error + string" where
  "latest_file_listdir w =
     and_then (listdir (data_dir w)) (\<lambda>es.
     and_then (stamp_all es) (\<lambda>stamped. Inr (latest_loop stamped 0 [])))"

text \<open>\<^verbatim>\<open>livePlotting\<close> of the heatmap window: one tick of the poll timer.\<close>

definition h_livePlotting :: "world \<Rightarrow> heatmap \<Rightarrow> py_error + heatmap" where
  "h_livePlotting w s =
     and_then (latest_file_walk w) (\<lambda>latest_file.
       if length latest_file > 0 then
         and_then
           (if abspath (cwd w) latest_file = h_filename s
            then h_updateData (parse_of w) s (h_xindex s) (h_yindex s) (h_zindex s) False
            else (let s1 = s\<lparr>h_filename := abspath (cwd w) latest_file\<rparr>
                  in h_updateData (parse_of w) s1 (h_xindex s1) (h_yindex s1) (- 1) True))
           (\<lambda>s2. Inr (s2\<lparr>h_file_path := h_filename s2\<rparr>))
       else Inr s)"

text \<open>
  \<^verbatim>\<open>openFileNameDialog\<close>, given the path the dialog returns (empty when it is cancelled).
\<close>

definition h_openFileNameDialog :: "world \<Rightarrow> heatmap \<Rightarrow> string \<Rightarrow> py_error + heatmap" where
  "h_openFileNameDialog w s fileName =
     (let s0 = s\<lparr>h_livePlot := False\<rparr>
      in if fileName \<noteq> [] then
           (let s1 = s0\<lparr>h_filename := fileName\<rparr>
            in and_then (h_updateData (parse_of w) s1 (h_xindex s1) (h_yindex s1) (- 1) True)
                 (\<lambda>s2. Inr (s2\<lparr>h_file_path := h_filename s2\<rparr>)))
         else Inr s0)"

section \<open>The dual window\<close>

record dual =
  d_filename :: string
  d_data :: "variable list"
  d_var_names :: "string list option"
  d_xbox :: combobox
  d_ybox :: combobox
  d_ybox2 :: combobox
  d_livePlot :: bool
  d_file_path :: string
  d_x :: "real list"
  d_y :: "real list"
  d_y2 :: "real list"
  d_data_line :: "real list \<times> real list"
  d_data_line2 :: "real list \<times> real list"
  d_labels :: "string \<times> string"
  d_xindex :: int
  d_yindex :: int
  d_yindex2 :: int

definition d_newFile :: "dual \<Rightarrow> int \<Rightarrow> int \<Rightarrow> int \<Rightarrow> dual" where
  "d_newFile s xindex yindex yindex2 =
     (let var_names = map name (d_data s)
      in s\<lparr>d_var_names := Some var_names,
           d_xbox := setCurrentIndex (addItems (clear (d_xbox s)) var_names) xindex,
           d_ybox := setCurrentIndex (addItems (clear (d_ybox s)) var_names) yindex,
           d_ybox2 := setCurrentIndex (addItems (clear (d_ybox2 s)) var_names) yindex2\<rparr>)"

definition d_noData :: "dual \<Rightarrow> dual" where
  "d_noData s = s\<lparr>d_x := [], d_y := [], d_y2 := [],
                  d_data_line := ([], []), d_data_line2 := ([], [])\<rparr>"

definition d_linePlot :: "dual \<Rightarrow> int \<Rightarrow> int \<Rightarrow> int \<Rightarrow> py_error + dual" where
  "d_linePlot s xindex yindex yindex2 =
     and_then (py_index (d_data s) xindex) (\<lambda>xv.
     and_then (py_index (d_data s) yindex) (\<lambda>yv.
     and_then (py_index (d_data s) yindex2) (\<lambda>yv2.
       Inr (s\<lparr>d_x := data xv, d_y := data yv, d_y2 := data yv2,
               d_data_line := (data xv, data yv), d_data_line2 := (data xv, data yv2)\<rparr>))))"

definition d_setLabels :: "dual \<Rightarrow> int \<Rightarrow> int \<Rightarrow> int \<Rightarrow> py_error + dual" where
  "d_setLabels s xindex yindex yindex2 =
     and_then (py_attr (d_var_names s)) (\<lambda>var_names.
     and_then (py_index var_names xindex) (\<lambda>lx.
     and_then (py_index var_names yindex) (\<lambda>ly.
     and_then (py_index var_names yindex2) (\<lambda>ly2.
       Inr (s\<lparr>d_labels := (lx, ''1: '' @ ly @ '', 2: '' @ ly2)\<rparr>)))))"

text \<open>
  \<^verbatim>\<open>updateData(self, xindex, yindex, yindex2, newFile=False)\<close> of the dual window, in
  the same three parts.
\<close>

definition d_load :: "dual \<Rightarrow> variable list \<Rightarrow> int \<Rightarrow> int \<Rightarrow> int \<Rightarrow> bool \<Rightarrow> dual" where
  "d_load s d xindex yindex yindex2 newFile =
     (let s1 = s\<lparr>d_data := d\<rparr> in if newFile then d_newFile s1 xindex yindex yindex2 else s1)"

definition d_plot :: "dual \<Rightarrow> variable \<Rightarrow> int \<Rightarrow> int \<Rightarrow> int \<Rightarrow> py_error + dual" where
  "d_plot s xv xindex yindex yindex2 =
     (if data xv = [] then Inr (d_noData s) else d_linePlot s xindex yindex yindex2)"

definition d_updateData ::
  "(string \<Rightarrow> py_error + variable list) \<Rightarrow> dual \<Rightarrow> int \<Rightarrow> int \<Rightarrow> int \<Rightarrow> bool \<Rightarrow> py_error + dual" where
  "d_updateData parse_data s xindex yindex yindex2 newFile =
     and_then (parse_data (d_filename s)) (\<lambda>d.
       let s2 = d_load s d xindex yindex yindex2 newFile
       in and_then (py_index (d_data s2) xindex) (\<lambda>xv.
          and_then (d_plot s2 xv xindex yindex yindex2) (\<lambda>s3.
            d_setLabels s3 xindex yindex yindex2)))"

text \<open>\<^verbatim>\<open>livePlotting\<close> of the dual window.\<close>

definition d_livePlotting :: "world \<Rightarrow> dual \<Rightarrow> py_error + dual" where
  "d_livePlotting w s =
     and_then (latest_file_walk w) (\<lambda>latest_file.
       if length latest_file > 0 then
         and_then
           (if abspath (cwd w) latest_file = d_filename s
            then d_updateData (parse_of w) s (d_xindex s) (d_yindex s) (d_yindex2 s) False
            else (let s1 = s\<lparr>d_filename := abspath (cwd w) latest_file\<rparr>
                  in d_updateData (parse_of w) s1 (d_xindex s1) (d_yindex s1) (d_yindex2 s1) True))
           (\<lambda>s2. Inr (s2\<lparr>d_file_path := d_filename s2\<rparr>))
       else Inr s)"

section \<open>The single-line window\<close>

record qtmplot =
  p_filename :: string
  p_data :: "variable list"
  p_var_names :: "string list option"
  p_xbox :: combobox
  p_ybox :: combobox
  p_livePlot :: bool
  p_file_path :: string
  p_x :: "real list"
  p_y :: "real list"
  p_data_line :: "real list \<times> real list"
  p_labels :: "string \<times> string"
  p_xindex :: int
  p_yindex :: int

definition p_newFile :: "qtmplot \<Rightarrow> int \<Rightarrow> int \<Rightarrow> qtmplot" where
  "p_newFile s xindex yindex =
     (let var_names = map name (p_data s)
      in s\<lparr>p_var_names := Some var_names,
           p_xbox := setCurrentIndex (addItems (clear (p_xbox s)) var_names) xindex,
           p_ybox := setCurrentIndex (addItems (clear (p_ybox s)) var_names) yindex\<rparr>)"

definition p_noData :: "qtmplot \<Rightarrow> qtmplot" where
  "p_noData s = s\<lparr>p_x := [], p_y := [], p_data_line := ([], [])\<rparr>"

definition p_linePlot :: "qtmplot \<Rightarrow> int \<Rightarrow> int \<Rightarrow> py_error + qtmplot" where
  "p_linePlot s xindex yindex =
     and_then (py_index (p_data s) xindex) (\<lambda>xv.
     and_then (py_index (p_data s) yindex) (\<lambda>yv.
       Inr (s\<lparr>p_x := data xv, p_y := data yv, p_data_line := (data xv, data yv)\<rparr>)))"

definition p_setLabels :: "qtmplot \<Rightarrow> int \<Rightarrow> int \<Rightarrow> py_error + qtmplot" where
  "p_setLabels s xindex yindex =
     and_then (py_attr (p_var_names s)) (\<lambda>var_names.
     and_then (py_index var_names xindex) (\<lambda>lx.
     and_then (py_index var_names yindex) (\<lambda>ly.
       Inr (s\<lparr>p_labels := (lx, ly)\<rparr>))))"

text \<open>\<^verbatim>\<open>updateData(self, xindex, yindex, newFile=False)\<close> of \<^verbatim>\<open>QTMplot\<close>.\<close>

definition p_load :: "qtmplot \<Rightarrow> variable list \<Rightarrow> int \<Rightarrow> int \<Rightarrow> bool \<Rightarrow> qtmplot" where
  "p_load s d xindex yindex newFile =
     (let s1 = s\<lparr>p_data := d\<rparr> in if newFile then p_newFile s1 xindex yindex else s1)"

definition p_plot :: "qtmplot \<Rightarrow> variable \<Rightarrow> int \<Rightarrow> int \<Rightarrow> py_error + qtmplot" where
  "p_plot s xv xindex yindex =
     (if data xv = [] then Inr (p_noData s) else p_linePlot s xindex yindex)"

definition p_updateData ::
  "(string \<Rightarrow> py_error + variable list) \<Rightarrow> qtmplot \<Rightarrow> int \<Rightarrow> int \<Rightarrow> bool \<Rightarrow> py_error + qtmplot" where
  "p_updateData parse_data s xindex yindex newFile =
     and_then (parse_data (p_filename s)) (\<lambda>d.
       let s2 = p_load s d xindex yindex newFile
       in and_then (py_index (p_data s2) xindex) (\<lambda>xv.
          and_then (p_plot s2 xv xindex yindex) (\<lambda>s3.
            p_setLabels s3 xindex yindex)))"

text \<open>\<^verbatim>\<open>livePlotting\<close> of \<^verbatim>\<open>QTMplot\<close>: the folder is listed with \<^verbatim>\<open>os.listdir\<close>.\<close>

definition p_livePlotting :: "world \<Rightarrow> qtmplot \<Rightarrow> py_error + qtmplot" where
  "p_livePlotting w s =
     and_then (latest_file_listdir w) (\<lambda>latest_file.
       if length latest_file > 0 then
         and_then
           (if abspath (cwd w) (path_join ''Data'' latest_file) = p_filename s
            then p_updateData (parse_of w) s (p_xindex s) (p_yindex s) False
            else (let s1 = s\<lparr>p_filename := abspath (cwd w) (path_join ''Data'' latest_file)\<rparr>
                  in p_updateData (parse_of w) s1 (p_xindex s1) (p_yindex s1) True))
           (\<lambda>s2. Inr (s2\<lparr>p_file_path := p_filename s2\<rparr>))
       else Inr s)"

section \<open>Concrete files, folders and windows\<close>

text \<open>
  The windows as \<^verbatim>\<open>__init__\<close> leaves them: no file, empty selectors, the indices 0, 1 and 2,
  the line plot in front.  The image starts as the one-pixel array \<^verbatim>\<open>np.zeros((1,1))\<close>;
  its rectangle and levels are the widgets' defaults and are never read.
\<close>

definition no_items :: combobox where
  "no_items = \<lparr>items = [], currentIndex = - 1\<rparr>"

definition h_init :: heatmap where
  "h_init = \<lparr>h_filename = [], h_data = [], h_var_names = None,
      h_xbox = no_items, h_ybox = no_items, h_zbox = no_items,
      h_slowbox = False, h_livePlot = False, h_file_path = [],
      h_graphs = GraphWidget, h_x = [], h_y = [], h_z = [],
      h_data_line = ([], []), h_image = [[0]], h_rect = (0, 0, 1, 1), h_levels = (0, 1),
      h_graph_labels = ([], []), h_image_labels = ([], []),
      h_xindex = 0, h_yindex = 1, h_zindex = 2\<rparr>"

definition d_init :: dual where
  "d_init = \<lparr>d_filename = [], d_data = [], d_var_names = None,
      d_xbox = no_items, d_ybox = no_items, d_ybox2 = no_items,
      d_livePlot = False, d_file_path = [],
      d_x = [], d_y = [], d_y2 = [], d_data_line = ([], []), d_data_line2 = ([], []),
      d_labels = ([], []), d_xindex = 0, d_yindex = 1, d_yindex2 = 2\<rparr>"

definition p_init :: qtmplot where
  "p_init = \<lparr>p_filename = [], p_data = [], p_var_names = None,
      p_xbox = no_items, p_ybox = no_items, p_livePlot = False, p_file_path = [],
      p_x = [], p_y = [], p_data_line = ([], []), p_labels = ([], []),
      p_xindex = 0, p_yindex = 1\<rparr>"

text \<open>
  Measurement files: the three-row sweep of the specification's scenario, a file that
  has only its header, a file with a single record, a file whose first column never
  changes, a sweep of three by three points with a tenth record begun, a file of two
  columns, a file of four columns, and a file of two columns that has only its header.
\<close>

definition sweep_001 :: csv_file where
  "sweep_001 = \<lparr>header = [''V1'', ''V2'', ''V3''],
                 records = [[0, 1, 2], [0, 3, 4], [1, 5, 6]]\<rparr>"

definition header_only :: csv_file where
  "header_only = \<lparr>header = [''V1'', ''V2'', ''V3''], records = []\<rparr>"

definition one_record :: csv_file where
  "one_record = \<lparr>header = [''V1'', ''V2'', ''V3''], records = [[5, 1, 2]]\<rparr>"

definition constant_x :: csv_file where
  "constant_x = \<lparr>header = [''V1'', ''V2'', ''V3''], records = [[5, 1, 2], [5, 3, 4]]\<rparr>"

definition grid_sweep :: csv_file where
  "grid_sweep = \<lparr>header = [''Vx'', ''Vy'', ''I''],
      records = [[0, 0, 1], [0, 1, 2], [0, 2, 3], [1, 0, 4], [1, 1, 5], [1, 2, 6],
                 [2, 0, 7], [2, 1, 8], [2, 2, 9], [3, 0, 10]]\<rparr>"

definition two_columns :: csv_file where
  "two_columns = \<lparr>header = [''V'', ''I''], records = [[0, 1], [1, 2]]\<rparr>"

definition four_columns :: csv_file where
  "four_columns = \<lparr>header = [''Vg'', ''Vsd'', ''I'', ''T''],
                    records = [[0, 1, 2, 3], [1, 2, 3, 4]]\<rparr>"

definition two_header_only :: csv_file where
  "two_header_only = \<lparr>header = [''V'', ''I''], records = []\<rparr>"

text \<open>What reading each path of the laboratory folder gives; any other path cannot be opened.\<close>

definition lab_parse :: "string \<Rightarrow> py_error + variable list" where
  "lab_parse p =
     (if p = ''/lab/Data/sweep_001.csv'' then parse_data_spec sweep_001
      else if p = ''/lab/Data/new.csv'' then parse_data_spec header_only
      else if p = ''/lab/Data/one.csv'' then parse_data_spec one_record
      else if p = ''/lab/Data/const.csv'' then parse_data_spec constant_x
      else if p = ''/lab/Data/grid.csv'' then parse_data_spec grid_sweep
      else if p = ''/lab/Data/two.csv'' then parse_data_spec two_columns
      else if p = ''/lab/Data/four.csv'' then parse_data_spec four_columns
      else if p = ''/lab/Data/two_new.csv'' then parse_data_spec two_header_only
      else Inl OSError)"

definition lab :: "node option \<Rightarrow> world" where
  "lab folder = \<lparr>cwd = ''/lab'', data_dir = folder, parse_of = lab_parse\<rparr>"

section \<open>Sequencing and indexing\<close>

lemma and_then_Inl [simp]: "and_then (Inl e) f = Inl e"
  by (simp add: and_then_def)

lemma and_then_Inr [simp]: "and_then (Inr v) f = f v"
  by (simp add: and_then_def)

lemma and_then_eq_Inr: "and_then m f = Inr y \<longleftrightarrow> (\<exists>v. m = Inr v \<and> f v = Inr y)"
  by (cases m) simp_all

lemmas geometry_defs = sweep_image_def sweep_length_def argmax_def cutoff_def np_reshape_def
  rows_of_def rect_fast_x_def rect_fast_y_def np_min_max_def np_T_def

lemmas widget_defs = py_index_def py_attr_def clear_def addItems_def setCurrentIndex_def

lemmas heatmap_defs = h_updateData_def h_load_def h_plot_def h_newFile_def h_noData_def h_linePlot_def
  h_imagePlot_def h_setLabels_def h_zboxindex_def h_xboxindex_def h_yboxindex_def
  h_livePlotting_def h_openFileNameDialog_def

lemmas dual_defs = d_updateData_def d_load_def d_plot_def d_newFile_def d_noData_def d_linePlot_def d_setLabels_def
  d_livePlotting_def

lemmas qtmplot_defs = p_updateData_def p_load_def p_plot_def p_newFile_def p_noData_def p_linePlot_def p_setLabels_def
  p_livePlotting_def

lemmas folder_defs = latest_file_walk_def latest_file_listdir_def walk_data_def listdir_def
  getmtime_def path_join_def abspath_def is_dir_def

lemmas lab_defs = lab_def lab_parse_def parse_data_spec_def sweep_001_def header_only_def
  one_record_def constant_x_def grid_sweep_def two_columns_def four_columns_def
  two_header_only_def h_init_def d_init_def p_init_def no_items_def

section \<open>The period of the fast axis\<close>

lemma argmax_less: "bs \<noteq> [] \<Longrightarrow> argmax bs < length bs"
  by (auto simp: argmax_def Let_def)

lemma argmax_before: "i < argmax bs \<Longrightarrow> \<not> bs ! i"
  using takeWhile_nth[of i Not bs] nth_mem[of i "takeWhile Not bs"] set_takeWhileD[of "bs ! i" Not bs]
  by (auto simp: argmax_def Let_def split: if_splits)

lemma argmax_at: "0 < argmax bs \<Longrightarrow> bs ! argmax bs"
  using nth_length_takeWhile[of Not bs]
  by (auto simp: argmax_def Let_def split: if_splits)

lemma argmax_none: "True \<notin> set bs \<Longrightarrow> argmax bs = 0"
proof -
  assume "True \<notin> set bs"
  then have "takeWhile Not bs = bs"
    by (intro takeWhile_eq_all_conv[THEN iffD2]) auto
  then have k: "length (takeWhile Not bs) = length bs"
    by (simp only:)
  show ?thesis unfolding argmax_def Let_def k by simp
qed

lemma sweep_length_first_change:
  assumes "sweep_length xs = Inr n"
  shows "n < length xs" and "\<forall>i<n. xs ! i = xs ! 0" and "0 < n \<longrightarrow> xs ! n \<noteq> xs ! 0"
proof -
  from assms obtain x0 xs' where xs: "xs = x0 # xs'"
    and n: "n = argmax (map (\<lambda>v. v \<noteq> x0) xs)"
    by (auto simp: sweep_length_def split: list.splits)
  from xs have x0: "xs ! 0 = x0" by simp
  show lt: "n < length xs"
    using argmax_less[of "map (\<lambda>v. v \<noteq> x0) xs"] xs n by simp
  show "\<forall>i<n. xs ! i = xs ! 0"
  proof (intro allI impI)
    fix i assume i: "i < n"
    with lt have il: "i < length xs" by simp
    from i n have "\<not> map (\<lambda>v. v \<noteq> x0) xs ! i"
      by (intro argmax_before) simp
    with il have "xs ! i = x0" by (simp only: nth_map) simp
    with x0 show "xs ! i = xs ! 0" by simp
  qed
  show "0 < n \<longrightarrow> xs ! n \<noteq> xs ! 0"
  proof
    assume "0 < n"
    with n have "map (\<lambda>v. v \<noteq> x0) xs ! argmax (map (\<lambda>v. v \<noteq> x0) xs)"
      by (intro argmax_at) simp
    with n have "map (\<lambda>v. v \<noteq> x0) xs ! n" by simp
    with lt have "xs ! n \<noteq> x0" by simp
    with x0 show "xs ! n \<noteq> xs ! 0" by simp
  qed
qed

lemma sweep_length_constant:
  assumes "xs \<noteq> []" and "\<forall>v\<in>set xs. v = hd xs"
  shows "sweep_length xs = Inr 0"
proof -
  from assms(1) obtain x0 xs' where xs: "xs = x0 # xs'" by (cases xs) auto
  with assms(2) have "True \<notin> set (map (\<lambda>v. v \<noteq> x0) xs)" by auto
  then have "argmax (map (\<lambda>v. v \<noteq> x0) xs) = 0" by (rule argmax_none)
  with xs show ?thesis by (simp add: sweep_length_def)
qed

lemma length_rows_of [simp]: "length (rows_of n xs) = length xs div n"
  by (simp add: rows_of_def)

lemma concat_rows_upto: "concat (map (\<lambda>i. take n (drop (i * n) xs)) [0..<k]) = take (k * n) xs"
proof (induction k)
  case 0
  show ?case by simp
next
  case (Suc k)
  have "take (Suc k * n) xs = take (k * n + n) xs"
    by (simp add: add.commute)
  also have "\<dots> = take (k * n) xs @ take n (drop (k * n) xs)"
    by (rule take_add)
  finally show ?case using Suc by simp
qed

lemma concat_rows_of: "concat (rows_of n xs) = take (n * (length xs div n)) xs"
  by (simp add: rows_of_def concat_rows_upto mult.commute)

lemma rows_of_length:
  assumes "r \<in> set (rows_of n xs)"
  shows "length r = n"
proof -
  from assms obtain i where i: "i < length xs div n" and r: "r = take n (drop (i * n) xs)"
    by (auto simp: rows_of_def)
  from i have "Suc i * n \<le> (length xs div n) * n"
    by (intro mult_le_mono1) simp
  also have "\<dots> \<le> length xs" by simp
  finally have "i * n + n \<le> length xs" by (simp add: add.commute)
  then show ?thesis using r by simp
qed

lemma np_T_empty: "concat (np_T n []) = []"
  by (simp add: np_T_def)

lemma concat_if_empty: "concat (if b then np_T n [] else []) = []"
  by (simp add: np_T_empty del: concat_eq_Nil_conv)

lemma sweep_image_rows:
  assumes ok: "sweep_image slow xs ys zs = Inr (g, r, lv)"
  shows "\<exists>n rows. sweep_length (if slow then ys else xs) = Inr n \<and> 0 < n \<and> n \<le> length zs
           \<and> concat rows = take (n * (length zs div n)) zs
           \<and> length rows = length zs div n
           \<and> list_all (\<lambda>row. length row = n) rows
           \<and> length zs < n * (length zs div n) + n
           \<and> g = (if slow then np_T n rows else rows)"
proof -
  define fast where "fast = (if slow then ys else xs)"
  from ok obtain n c rows where n: "sweep_length fast = Inr n"
    and c: "cutoff (length zs) n = Inr c"
    and rows: "np_reshape (take (n * c) zs) n = Inr rows"
    and g: "g = (if slow then np_T n rows else rows)"
    and lv: "np_min_max g = Inr lv"
    by (auto simp: sweep_image_def fast_def and_then_eq_Inr split: if_splits)
  from c have n0: "0 < n" and c_def: "c = max (length zs div n) 1"
    by (auto simp: cutoff_def split: if_splits)
  from rows n0 have div: "length (take (n * c) zs) mod n = 0"
    and rows_def: "rows = rows_of n (take (n * c) zs)"
    by (auto simp: np_reshape_def split: if_splits)
  have nonempty: "concat g \<noteq> []"
  proof
    assume e: "concat g = []"
    have "np_min_max g = Inl ValueError"
      unfolding np_min_max_def e by simp
    with lv show False by simp
  qed
  have le: "n \<le> length zs"
  proof (rule ccontr)
    assume "\<not> n \<le> length zs"
    then have short: "length zs < n" by simp
    then have "c = 1" using c_def by simp
    with short div have "zs = []" by simp
    then have "rows = []" using rows_def by (simp add: rows_of_def)
    with g have "concat g = []" by (simp only: concat_if_empty)
    with nonempty show False by simp
  qed
  with n0 have "1 \<le> length zs div n"
    by (simp add: Suc_le_eq div_greater_zero_iff)
  then have c_eq: "c = length zs div n" using c_def by simp
  have len_take: "length (take (n * c) zs) = n * c"
    using c_eq by simp
  have "concat rows = take (n * (length zs div n)) zs"
    using rows_def len_take n0 c_eq by (simp add: concat_rows_of)
  moreover have "length rows = length zs div n"
    using rows_def len_take n0 c_eq by simp
  moreover have "list_all (\<lambda>row. length row = n) rows"
    using rows_def by (auto simp: list_all_iff rows_of_length)
  moreover have "length zs < n * (length zs div n) + n"
    using n0 dividend_less_times_div[of n "length zs"] by (simp add: add.commute)
  ultimately show ?thesis
    using n n0 le g unfolding fast_def by blast
qed

lemma rect_fast_x_ok:
  "0 < n \<Longrightarrow> n < length xs \<Longrightarrow> length ys = length xs \<Longrightarrow> \<exists>r. rect_fast_x xs ys n = Inr r"
  by (auto simp: rect_fast_x_def py_index_def)

lemma rect_fast_y_ok:
  "0 < n \<Longrightarrow> n < length ys \<Longrightarrow> length xs = length ys \<Longrightarrow> \<exists>r. rect_fast_y xs ys n = Inr r"
  by (auto simp: rect_fast_y_def py_index_def)

lemma np_min_max_ok:
  assumes "concat g \<noteq> []"
  shows "\<exists>lv. np_min_max g = Inr lv"
proof -
  from assms obtain v vs where e: "concat g = v # vs"
    by (cases "concat g") simp_all
  show ?thesis unfolding np_min_max_def e by simp
qed

lemma concat_np_T_nonempty:
  assumes "0 < n" and "rows \<noteq> []"
  shows "concat (np_T n rows) \<noteq> []"
proof -
  from assms(1) have "[0..<n] = 0 # [Suc 0..<n]"
    by (simp add: upt_conv_Cons)
  then have "np_T n rows = map (\<lambda>r. r ! 0) rows # map (\<lambda>j. map (\<lambda>r. r ! j) rows) [Suc 0..<n]"
    by (simp add: np_T_def)
  with assms(2) show ?thesis by simp
qed

lemma sweep_image_total:
  assumes len: "length xs = length zs" "length ys = length zs"
    and n: "sweep_length (if slow then ys else xs) = Inr n" and n0: "0 < n"
  shows "\<exists>res. sweep_image slow xs ys zs = Inr res"
proof -
  from sweep_length_first_change(1)[OF n] len have lt: "n < length zs"
    by (simp split: if_splits)
  with n0 have c1: "1 \<le> length zs div n"
    by (simp add: Suc_le_eq div_greater_zero_iff)
  define c where "c = length zs div n"
  have cut: "cutoff (length zs) n = Inr c"
    using n0 c1 by (simp add: cutoff_def c_def)
  have len_take: "length (take (n * c) zs) = n * c"
    by (simp add: c_def)
  define rows where "rows = rows_of n (take (n * c) zs)"
  have resh: "np_reshape (take (n * c) zs) n = Inr rows"
    using n0 len_take by (simp add: np_reshape_def rows_def)
  have "length rows = c"
    using n0 len_take by (simp add: rows_def)
  with c1 have rows_ne: "rows \<noteq> []"
    by (auto simp: c_def)
  have "concat rows = take (n * c) zs"
    using len_take n0 by (simp add: rows_def concat_rows_of)
  moreover have "take (n * c) zs \<noteq> []"
    using n0 c1 lt by (auto simp: c_def)
  ultimately have "concat rows \<noteq> []" by metis
  then obtain lv where lv: "np_min_max rows = Inr lv"
    using np_min_max_ok by blast
  obtain lvT where lvT: "np_min_max (np_T n rows) = Inr lvT"
    using np_min_max_ok[OF concat_np_T_nonempty[OF n0 rows_ne]] by blast
  show ?thesis
  proof (cases slow)
    case True
    obtain r where "rect_fast_y xs ys n = Inr r"
      using rect_fast_y_ok[of n ys xs] n0 lt len by auto
    with True n cut resh lvT show ?thesis
      by (cases r) (simp add: sweep_image_def)
  next
    case False
    obtain r where "rect_fast_x xs ys n = Inr r"
      using rect_fast_x_ok[of n xs ys] n0 lt len by auto
    with False n cut resh lv show ?thesis
      by (cases r) (simp add: sweep_image_def)
  qed
qed

lemma rows_of_Nil: "rows_of n [] = []"
  by (simp add: rows_of_def)

lemma rows_of_short: "length xs < n \<Longrightarrow> rows_of n xs = []"
  by (simp add: rows_of_def)

lemma rows_of_step:
  assumes "0 < n" and "n \<le> length xs"
  shows "rows_of n xs = take n xs # rows_of n (drop n xs)"
proof -
  from assms have k: "length xs div n = Suc ((length xs - n) div n)"
    by (simp add: le_div_geq)
  have "[0..<Suc ((length xs - n) div n)] = 0 # map Suc [0..<(length xs - n) div n]"
    by (simp add: upt_conv_Cons map_Suc_upt del: upt_Suc)
  then show ?thesis
    by (simp add: rows_of_def k add.commute del: upt_Suc)
qed

section \<open>The heatmap window, part by part\<close>

lemma h_setLabels_Inr:
  "h_setLabels s xi yi = Inr s' \<Longrightarrow>
     \<exists>vn lx ly. h_var_names s = Some vn \<and> py_index vn xi = Inr lx \<and> py_index vn yi = Inr ly
       \<and> s' = s\<lparr>h_graph_labels := (lx, ly), h_image_labels := (lx, ly)\<rparr>"
  by (auto simp: h_setLabels_def and_then_eq_Inr py_attr_def split: option.splits)

lemma h_linePlot_Inr:
  "h_linePlot s vn xi yi = Inr s' \<Longrightarrow>
     \<exists>xv yv. py_index (h_data s) xi = Inr xv \<and> py_index (h_data s) yi = Inr yv
       \<and> s' = s\<lparr>h_graphs := GraphWidget, h_zindex := int (length vn) - 1,
                 h_zbox := setCurrentIndex (h_zbox s) (int (length vn) - 1),
                 h_x := data xv, h_y := data yv, h_data_line := (data xv, data yv)\<rparr>"
  by (auto simp: h_linePlot_def and_then_eq_Inr Let_def)

lemma h_imagePlot_Inr:
  "h_imagePlot s xi yi zi = Inr s' \<Longrightarrow>
     \<exists>xv yv zv g r lv. py_index (h_data s) xi = Inr xv \<and> py_index (h_data s) yi = Inr yv
       \<and> py_index (h_data s) zi = Inr zv
       \<and> sweep_image (h_slowbox s) (data xv) (data yv) (data zv) = Inr (g, r, lv)
       \<and> s' = s\<lparr>h_graphs := ImageWidget, h_x := data xv, h_y := data yv, h_z := g,
                 h_image := g, h_rect := r, h_levels := lv\<rparr>"
  by (auto simp: h_imagePlot_def and_then_eq_Inr split: prod.splits)

lemma h_load_refresh: "h_load s d xi yi False = s\<lparr>h_data := d\<rparr>"
  by (simp add: h_load_def)

lemma h_load_newFile:
  "h_load s d xi yi True =
     s\<lparr>h_data := d, h_var_names := Some (map name d @ [''<none>'']),
       h_xbox := setCurrentIndex (addItems (clear (h_xbox s)) (map name d)) xi,
       h_ybox := setCurrentIndex (addItems (clear (h_ybox s)) (map name d)) yi,
       h_zbox := setCurrentIndex (addItems (clear (h_zbox s)) (map name d @ [''<none>''])) (int (length d)),
       h_zindex := int (length d)\<rparr>"
  by (simp add: h_load_def h_newFile_def Let_def)

lemma h_data_load [simp]: "h_data (h_load s d xi yi nf) = d"
  by (cases nf) (simp_all add: h_load_refresh h_load_newFile)

lemma h_updateData_Inr:
  assumes "h_updateData pd s xi yi zi nf = Inr s'"
  shows "\<exists>d xv s3. pd (h_filename s) = Inr d \<and> py_index d xi = Inr xv
      \<and> h_plot (h_load s d xi yi nf) xv xi yi zi = Inr s3
      \<and> h_setLabels s3 xi yi = Inr s'"
  using assms unfolding h_updateData_def Let_def and_then_eq_Inr h_data_load
  by (elim exE conjE) (intro exI conjI; assumption)

lemma h_plot_Inr:
  assumes "h_plot s xv xi yi zi = Inr s3"
  shows "data xv = [] \<and> s3 = h_noData s
     \<or> data xv \<noteq> [] \<and> (\<exists>vn. h_var_names s = Some vn
          \<and> ((zi = - 1 \<or> zi = int (length vn) - 1) \<and> h_linePlot s vn xi yi = Inr s3
              \<or> zi \<noteq> - 1 \<and> zi \<noteq> int (length vn) - 1 \<and> h_imagePlot s xi yi zi = Inr s3))"
proof (cases "data xv = []")
  case True
  with assms show ?thesis by (simp add: h_plot_def)
next
  case False
  with assms obtain vn where vn: "h_var_names s = Some vn"
    and br: "(if zi = - 1 \<or> zi = int (length vn) - 1 then h_linePlot s vn xi yi
              else h_imagePlot s xi yi zi) = Inr s3"
    by (auto simp: h_plot_def and_then_eq_Inr py_attr_def split: option.splits)
  show ?thesis
  proof (cases "zi = - 1 \<or> zi = int (length vn) - 1")
    case True
    with br False vn show ?thesis by simp
  next
    case False
    with br \<open>data xv \<noteq> []\<close> vn show ?thesis by simp
  qed
qed


lemma h_load_keeps [simp]:
  "h_filename (h_load s d xi yi nf) = h_filename s"
  "h_xindex (h_load s d xi yi nf) = h_xindex s"
  "h_yindex (h_load s d xi yi nf) = h_yindex s"
  "h_slowbox (h_load s d xi yi nf) = h_slowbox s"
  "h_livePlot (h_load s d xi yi nf) = h_livePlot s"
  "h_file_path (h_load s d xi yi nf) = h_file_path s"
  "h_graphs (h_load s d xi yi nf) = h_graphs s"
  "h_x (h_load s d xi yi nf) = h_x s"
  "h_y (h_load s d xi yi nf) = h_y s"
  "h_z (h_load s d xi yi nf) = h_z s"
  "h_data_line (h_load s d xi yi nf) = h_data_line s"
  "h_image (h_load s d xi yi nf) = h_image s"
  "h_rect (h_load s d xi yi nf) = h_rect s"
  "h_levels (h_load s d xi yi nf) = h_levels s"
  by (cases nf; simp add: h_load_refresh h_load_newFile)+

lemma h_updateData_shape:
  assumes run: "h_updateData pd s xi yi zi nf = Inr s'"
  obtains (empty) d xv vn lx ly where
      "pd (h_filename s) = Inr d" "py_index d xi = Inr xv" "data xv = []"
      "h_var_names (h_load s d xi yi nf) = Some vn"
      "py_index vn xi = Inr lx" "py_index vn yi = Inr ly"
      "s' = (h_load s d xi yi nf)\<lparr>h_graphs := GraphWidget, h_x := [], h_y := [],
              h_data_line := ([], []),
              h_graph_labels := (lx, ly), h_image_labels := (lx, ly)\<rparr>"
  | (line) d xv yv vn lx ly where
      "pd (h_filename s) = Inr d" "py_index d xi = Inr xv" "data xv \<noteq> []"
      "h_var_names (h_load s d xi yi nf) = Some vn"
      "zi = - 1 \<or> zi = int (length vn) - 1" "py_index d yi = Inr yv"
      "py_index vn xi = Inr lx" "py_index vn yi = Inr ly"
      "s' = (h_load s d xi yi nf)\<lparr>h_graphs := GraphWidget, h_zindex := int (length vn) - 1,
              h_zbox := setCurrentIndex (h_zbox (h_load s d xi yi nf)) (int (length vn) - 1),
              h_x := data xv, h_y := data yv, h_data_line := (data xv, data yv),
              h_graph_labels := (lx, ly), h_image_labels := (lx, ly)\<rparr>"
  | (image) d xv yv zv vn g r lv lx ly where
      "pd (h_filename s) = Inr d" "py_index d xi = Inr xv" "data xv \<noteq> []"
      "h_var_names (h_load s d xi yi nf) = Some vn"
      "zi \<noteq> - 1" "zi \<noteq> int (length vn) - 1"
      "py_index d yi = Inr yv" "py_index d zi = Inr zv"
      "sweep_image (h_slowbox s) (data xv) (data yv) (data zv) = Inr (g, r, lv)"
      "py_index vn xi = Inr lx" "py_index vn yi = Inr ly"
      "s' = (h_load s d xi yi nf)\<lparr>h_graphs := ImageWidget, h_x := data xv, h_y := data yv,
              h_z := g, h_image := g, h_rect := r, h_levels := lv,
              h_graph_labels := (lx, ly), h_image_labels := (lx, ly)\<rparr>"
proof -
  from h_updateData_Inr[OF run] obtain d xv s3 where d: "pd (h_filename s) = Inr d"
    and xv: "py_index d xi = Inr xv"
    and plot: "h_plot (h_load s d xi yi nf) xv xi yi zi = Inr s3"
    and lab: "h_setLabels s3 xi yi = Inr s'"
    by blast
  let ?s2 = "h_load s d xi yi nf"
  from h_setLabels_Inr[OF lab] obtain vn3 lx ly where vn3: "h_var_names s3 = Some vn3"
    and lx: "py_index vn3 xi = Inr lx" and ly: "py_index vn3 yi = Inr ly"
    and s': "s' = s3\<lparr>h_graph_labels := (lx, ly), h_image_labels := (lx, ly)\<rparr>"
    by blast
  from h_plot_Inr[OF plot] consider
      (a) "data xv = []" "s3 = h_noData ?s2"
    | (b) vn where "data xv \<noteq> []" "h_var_names ?s2 = Some vn"
        "zi = - 1 \<or> zi = int (length vn) - 1" "h_linePlot ?s2 vn xi yi = Inr s3"
    | (c) vn where "data xv \<noteq> []" "h_var_names ?s2 = Some vn"
        "zi \<noteq> - 1" "zi \<noteq> int (length vn) - 1" "h_imagePlot ?s2 xi yi zi = Inr s3"
    by blast
  then show thesis
  proof cases
    case a
    from a(2) vn3 have "h_var_names ?s2 = Some vn3" by (simp add: h_noData_def)
    moreover from a(2) s' have "s' = ?s2\<lparr>h_graphs := GraphWidget, h_x := [], h_y := [],
              h_data_line := ([], []),
              h_graph_labels := (lx, ly), h_image_labels := (lx, ly)\<rparr>"
      by (simp add: h_noData_def)
    ultimately show thesis using d xv a(1) lx ly by (intro empty)
  next
    case b
    from h_linePlot_Inr[OF b(4)] xv obtain yv where yv: "py_index d yi = Inr yv"
      and s3: "s3 = ?s2\<lparr>h_graphs := GraphWidget, h_zindex := int (length vn) - 1,
                 h_zbox := setCurrentIndex (h_zbox ?s2) (int (length vn) - 1),
                 h_x := data xv, h_y := data yv, h_data_line := (data xv, data yv)\<rparr>"
      by auto
    from s3 vn3 b(2) have "vn3 = vn" by simp
    with lx ly s3 s' d xv b yv show thesis by (intro line) simp_all
  next
    case c
    from h_imagePlot_Inr[OF c(5)] xv obtain yv zv g r lv where yv: "py_index d yi = Inr yv"
      and zv: "py_index d zi = Inr zv"
      and im: "sweep_image (h_slowbox s) (data xv) (data yv) (data zv) = Inr (g, r, lv)"
      and s3: "s3 = ?s2\<lparr>h_graphs := ImageWidget, h_x := data xv, h_y := data yv, h_z := g,
                 h_image := g, h_rect := r, h_levels := lv\<rparr>"
      by auto
    from s3 vn3 c(2) have "vn3 = vn" by simp
    with lx ly s3 s' d xv c yv zv im show thesis by (intro image) simp_all
  qed
qed


lemma items_setCurrentIndex [simp]: "items (setCurrentIndex cb i) = items cb"
  by (simp add: setCurrentIndex_def)

lemma items_rebuilt [simp]: "items (addItems (clear cb) texts) = texts"
  by (simp add: addItems_def clear_def)

lemma currentIndex_setCurrentIndex:
  "0 \<le> i \<Longrightarrow> i < int (length (items cb)) \<Longrightarrow> currentIndex (setCurrentIndex cb i) = i"
  by (simp add: setCurrentIndex_def)

lemma h_updateData_keeps:
  assumes "h_updateData pd s xi yi zi nf = Inr s'"
  shows "h_filename s' = h_filename s \<and> h_xindex s' = h_xindex s \<and> h_yindex s' = h_yindex s
     \<and> h_slowbox s' = h_slowbox s \<and> h_livePlot s' = h_livePlot s
     \<and> h_file_path s' = h_file_path s"
  using assms by (cases rule: h_updateData_shape) simp_all

lemma h_updateData_refresh:
  assumes "h_updateData pd s xi yi zi False = Inr s'"
  shows "h_var_names s' = h_var_names s \<and> h_xbox s' = h_xbox s \<and> h_ybox s' = h_ybox s
     \<and> items (h_zbox s') = items (h_zbox s)
     \<and> (zi = h_zindex s \<and> zi \<noteq> - 1 \<longrightarrow> h_zindex s' = h_zindex s)"
  using assms by (cases rule: h_updateData_shape) (auto simp: h_load_refresh)

lemma h_updateData_rebuild:
  assumes "h_updateData pd s xi yi zi True = Inr s'"
  shows "\<exists>d. pd (h_filename s) = Inr d \<and> h_data s' = d
     \<and> h_var_names s' = Some (map name d @ [''<none>''])
     \<and> items (h_xbox s') = map name d \<and> items (h_ybox s') = map name d
     \<and> items (h_zbox s') = map name d @ [''<none>'']
     \<and> h_zindex s' = int (length d) \<and> currentIndex (h_zbox s') = int (length d)"
  using assms
  by (cases rule: h_updateData_shape)
     (auto simp: h_load_newFile currentIndex_setCurrentIndex)

lemma h_updateData_sentinel:
  assumes run: "h_updateData pd s xi yi zi nf = Inr s'"
    and vn: "h_var_names s' = Some vn" and zi: "zi = - 1 \<or> zi = int (length vn) - 1"
  shows "h_graphs s' = GraphWidget \<and> h_image s' = h_image s \<and> h_z s' = h_z s
     \<and> h_rect s' = h_rect s \<and> h_levels s' = h_levels s
     \<and> h_data_line s' = (h_x s', h_y s')
     \<and> (\<exists>d xv. pd (h_filename s) = Inr d \<and> py_index d xi = Inr xv
          \<and> (data xv = [] \<and> h_x s' = [] \<and> h_y s' = []
              \<or> (\<exists>yv. py_index d yi = Inr yv \<and> h_x s' = data xv \<and> h_y s' = data yv)))"
  using run
proof (cases rule: h_updateData_shape)
  case (empty d xv vn lx ly)
  then show ?thesis by simp
next
  case (line d xv yv vn lx ly)
  then show ?thesis by simp
next
  case (image d xv yv zv vn' g r lv lx ly)
  from image(12) image(4) vn have "vn' = vn" by simp
  with image(5,6) zi show ?thesis by simp
qed

lemma h_updateData_empty:
  assumes "pd (h_filename s) = Inr d" and "py_index d xi = Inr xv" and "data xv = []"
    and "h_var_names (h_load s d xi yi nf) = Some vn"
    and "py_index vn xi = Inr lx" and "py_index vn yi = Inr ly"
  shows "h_updateData pd s xi yi zi nf =
     Inr ((h_load s d xi yi nf)\<lparr>h_graphs := GraphWidget, h_x := [], h_y := [],
            h_data_line := ([], []),
            h_graph_labels := (lx, ly), h_image_labels := (lx, ly)\<rparr>)"
  using assms
  by (simp add: h_updateData_def h_plot_def h_setLabels_def h_noData_def py_attr_def)

section \<open>The dual window, part by part\<close>

lemma d_setLabels_Inr:
  "d_setLabels s xi yi yi2 = Inr s' \<Longrightarrow>
     \<exists>vn lx ly ly2. d_var_names s = Some vn \<and> py_index vn xi = Inr lx
       \<and> py_index vn yi = Inr ly \<and> py_index vn yi2 = Inr ly2
       \<and> s' = s\<lparr>d_labels := (lx, ''1: '' @ ly @ '', 2: '' @ ly2)\<rparr>"
  by (auto simp: d_setLabels_def and_then_eq_Inr py_attr_def split: option.splits)

lemma d_linePlot_Inr:
  "d_linePlot s xi yi yi2 = Inr s' \<Longrightarrow>
     \<exists>xv yv yv2. py_index (d_data s) xi = Inr xv \<and> py_index (d_data s) yi = Inr yv
       \<and> py_index (d_data s) yi2 = Inr yv2
       \<and> s' = s\<lparr>d_x := data xv, d_y := data yv, d_y2 := data yv2,
                 d_data_line := (data xv, data yv), d_data_line2 := (data xv, data yv2)\<rparr>"
  by (auto simp: d_linePlot_def and_then_eq_Inr)

lemma d_load_refresh: "d_load s d xi yi yi2 False = s\<lparr>d_data := d\<rparr>"
  by (simp add: d_load_def)

lemma d_load_newFile:
  "d_load s d xi yi yi2 True =
     s\<lparr>d_data := d, d_var_names := Some (map name d),
       d_xbox := setCurrentIndex (addItems (clear (d_xbox s)) (map name d)) xi,
       d_ybox := setCurrentIndex (addItems (clear (d_ybox s)) (map name d)) yi,
       d_ybox2 := setCurrentIndex (addItems (clear (d_ybox2 s)) (map name d)) yi2\<rparr>"
  by (simp add: d_load_def d_newFile_def Let_def)

lemma d_data_load [simp]: "d_data (d_load s d xi yi yi2 nf) = d"
  by (cases nf) (simp_all add: d_load_refresh d_load_newFile)

lemma d_load_keeps [simp]:
  "d_filename (d_load s d xi yi yi2 nf) = d_filename s"
  "d_xindex (d_load s d xi yi yi2 nf) = d_xindex s"
  "d_yindex (d_load s d xi yi yi2 nf) = d_yindex s"
  "d_yindex2 (d_load s d xi yi yi2 nf) = d_yindex2 s"
  "d_livePlot (d_load s d xi yi yi2 nf) = d_livePlot s"
  "d_file_path (d_load s d xi yi yi2 nf) = d_file_path s"
  by (cases nf; simp add: d_load_refresh d_load_newFile)+

lemma d_updateData_Inr:
  assumes "d_updateData pd s xi yi yi2 nf = Inr s'"
  shows "\<exists>d xv s3. pd (d_filename s) = Inr d \<and> py_index d xi = Inr xv
      \<and> d_plot (d_load s d xi yi yi2 nf) xv xi yi yi2 = Inr s3
      \<and> d_setLabels s3 xi yi yi2 = Inr s'"
  using assms unfolding d_updateData_def Let_def and_then_eq_Inr d_data_load
  by (elim exE conjE) (intro exI conjI; assumption)

lemma d_updateData_shape:
  assumes run: "d_updateData pd s xi yi yi2 nf = Inr s'"
  obtains (empty) d xv vn lx ly ly2 where
      "pd (d_filename s) = Inr d" "py_index d xi = Inr xv" "data xv = []"
      "d_var_names (d_load s d xi yi yi2 nf) = Some vn"
      "py_index vn xi = Inr lx" "py_index vn yi = Inr ly" "py_index vn yi2 = Inr ly2"
      "s' = (d_load s d xi yi yi2 nf)\<lparr>d_x := [], d_y := [], d_y2 := [],
              d_data_line := ([], []), d_data_line2 := ([], []),
              d_labels := (lx, ''1: '' @ ly @ '', 2: '' @ ly2)\<rparr>"
  | (line) d xv yv yv2 vn lx ly ly2 where
      "pd (d_filename s) = Inr d" "py_index d xi = Inr xv" "data xv \<noteq> []"
      "py_index d yi = Inr yv" "py_index d yi2 = Inr yv2"
      "d_var_names (d_load s d xi yi yi2 nf) = Some vn"
      "py_index vn xi = Inr lx" "py_index vn yi = Inr ly" "py_index vn yi2 = Inr ly2"
      "s' = (d_load s d xi yi yi2 nf)\<lparr>d_x := data xv, d_y := data yv, d_y2 := data yv2,
              d_data_line := (data xv, data yv), d_data_line2 := (data xv, data yv2),
              d_labels := (lx, ''1: '' @ ly @ '', 2: '' @ ly2)\<rparr>"
proof -
  from d_updateData_Inr[OF run] obtain d xv s3 where d: "pd (d_filename s) = Inr d"
    and xv: "py_index d xi = Inr xv"
    and plot: "d_plot (d_load s d xi yi yi2 nf) xv xi yi yi2 = Inr s3"
    and lab: "d_setLabels s3 xi yi yi2 = Inr s'"
    by blast
  let ?s2 = "d_load s d xi yi yi2 nf"
  from d_setLabels_Inr[OF lab] obtain vn lx ly ly2 where vn: "d_var_names s3 = Some vn"
    and lx: "py_index vn xi = Inr lx" and ly: "py_index vn yi = Inr ly"
    and ly2: "py_index vn yi2 = Inr ly2"
    and s': "s' = s3\<lparr>d_labels := (lx, ''1: '' @ ly @ '', 2: '' @ ly2)\<rparr>"
    by blast
  show thesis
  proof (cases "data xv = []")
    case True
    with plot have s3: "s3 = d_noData ?s2" by (simp add: d_plot_def)
    with vn have "d_var_names ?s2 = Some vn" by (simp add: d_noData_def)
    moreover from s3 s' have "s' = ?s2\<lparr>d_x := [], d_y := [], d_y2 := [],
              d_data_line := ([], []), d_data_line2 := ([], []),
              d_labels := (lx, ''1: '' @ ly @ '', 2: '' @ ly2)\<rparr>"
      by (simp add: d_noData_def)
    ultimately show thesis using d xv True lx ly ly2 by (intro empty)
  next
    case False
    with plot have "d_linePlot ?s2 xi yi yi2 = Inr s3" by (simp add: d_plot_def)
    from d_linePlot_Inr[OF this] xv obtain yv yv2 where yv: "py_index d yi = Inr yv"
      and yv2: "py_index d yi2 = Inr yv2"
      and s3: "s3 = ?s2\<lparr>d_x := data xv, d_y := data yv, d_y2 := data yv2,
                 d_data_line := (data xv, data yv), d_data_line2 := (data xv, data yv2)\<rparr>"
      by auto
    from s3 vn have "d_var_names ?s2 = Some vn" by simp
    with lx ly ly2 s3 s' d xv False yv yv2 show thesis by (intro line) simp_all
  qed
qed

lemma d_updateData_refresh:
  assumes "d_updateData pd s xi yi yi2 False = Inr s'"
  shows "d_var_names s' = d_var_names s \<and> d_xbox s' = d_xbox s \<and> d_ybox s' = d_ybox s
     \<and> d_ybox2 s' = d_ybox2 s \<and> d_xindex s' = d_xindex s \<and> d_yindex s' = d_yindex s
     \<and> d_yindex2 s' = d_yindex2 s \<and> d_filename s' = d_filename s"
  using assms by (cases rule: d_updateData_shape) (simp_all add: d_load_refresh)

lemma d_updateData_rebuild:
  assumes "d_updateData pd s xi yi yi2 True = Inr s'"
  shows "\<exists>d. pd (d_filename s) = Inr d \<and> d_data s' = d \<and> d_var_names s' = Some (map name d)
     \<and> items (d_xbox s') = map name d \<and> items (d_ybox s') = map name d
     \<and> items (d_ybox2 s') = map name d
     \<and> d_xindex s' = d_xindex s \<and> d_yindex s' = d_yindex s \<and> d_yindex2 s' = d_yindex2 s"
  using assms by (cases rule: d_updateData_shape) (simp_all add: d_load_newFile)

lemma d_updateData_empty:
  assumes "pd (d_filename s) = Inr d" and "py_index d xi = Inr xv" and "data xv = []"
    and "d_var_names (d_load s d xi yi yi2 nf) = Some vn"
    and "py_index vn xi = Inr lx" and "py_index vn yi = Inr ly" and "py_index vn yi2 = Inr ly2"
  shows "d_updateData pd s xi yi yi2 nf =
     Inr ((d_load s d xi yi yi2 nf)\<lparr>d_x := [], d_y := [], d_y2 := [],
            d_data_line := ([], []), d_data_line2 := ([], []),
            d_labels := (lx, ''1: '' @ ly @ '', 2: '' @ ly2)\<rparr>)"
  using assms
  by (simp add: d_updateData_def d_plot_def d_setLabels_def d_noData_def py_attr_def)

section \<open>The search for the latest file\<close>

lemma latest_loop_result:
  "latest_loop fs m cur = r \<Longrightarrow>
     (r = cur \<and> (\<forall>(f, s) \<in> set fs. py_in ''.csv'' f \<longrightarrow> s \<le> m))
     \<or> (\<exists>s. (r, s) \<in> set fs \<and> py_in ''.csv'' r \<and> m < s
           \<and> (\<forall>(f, s') \<in> set fs. py_in ''.csv'' f \<longrightarrow> s' \<le> s))"
proof (induction fs arbitrary: m cur)
  case Nil
  then show ?case by simp
next
  case (Cons p fs)
  obtain f s where p: "p = (f, s)" by (cases p)
  show ?case
  proof (cases "py_in ''.csv'' f \<and> m < s")
    case True
    with Cons.prems p have "latest_loop fs s f = r" by simp
    from Cons.IH[OF this] True p show ?thesis by fastforce
  next
    case False
    with Cons.prems p have "latest_loop fs m cur = r" by auto
    from Cons.IH[OF this] False p show ?thesis by fastforce
  qed
qed

lemma latest_file_walk_result:
  assumes "latest_file_walk w = Inr r"
  shows "\<exists>stamped. stamp_all (walk_data (data_dir w)) = Inr stamped
     \<and> ((r = [] \<and> (\<forall>(f, s) \<in> set stamped. py_in ''.csv'' f \<longrightarrow> s \<le> 0))
         \<or> (\<exists>s. (r, s) \<in> set stamped \<and> py_in ''.csv'' r \<and> 0 < s
               \<and> (\<forall>(f, s') \<in> set stamped. py_in ''.csv'' f \<longrightarrow> s' \<le> s)))"
proof -
  from assms obtain stamped where st: "stamp_all (walk_data (data_dir w)) = Inr stamped"
    and r: "latest_loop stamped 0 [] = r"
    by (auto simp: latest_file_walk_def and_then_eq_Inr)
  from latest_loop_result[OF r] st show ?thesis by blast
qed

lemma walk_data_nothing [simp]:
  "walk_data None = []" "walk_data (Some (Locked t)) = []" "walk_data (Some (Dir t [])) = []"
  "walk_data (Some (File t)) = []" "walk_data (Some Broken) = []"
  by (simp_all add: walk_data_def)

lemma latest_file_walk_nothing:
  "walk_data (data_dir w) = [] \<Longrightarrow> latest_file_walk w = Inr []"
  by (simp add: latest_file_walk_def)

lemma h_livePlotting_nothing: "latest_file_walk w = Inr [] \<Longrightarrow> h_livePlotting w s = Inr s"
  by (simp add: h_livePlotting_def)

lemma d_livePlotting_nothing: "latest_file_walk w = Inr [] \<Longrightarrow> d_livePlotting w s = Inr s"
  by (simp add: d_livePlotting_def)

lemma h_livePlotting_same:
  "latest_file_walk w = Inr f \<Longrightarrow> f \<noteq> [] \<Longrightarrow> abspath (cwd w) f = h_filename s \<Longrightarrow>
   h_livePlotting w s =
     and_then (h_updateData (parse_of w) s (h_xindex s) (h_yindex s) (h_zindex s) False)
       (\<lambda>s2. Inr (s2\<lparr>h_file_path := h_filename s2\<rparr>))"
  by (simp add: h_livePlotting_def)

lemma h_livePlotting_new:
  "latest_file_walk w = Inr f \<Longrightarrow> f \<noteq> [] \<Longrightarrow> abspath (cwd w) f \<noteq> h_filename s \<Longrightarrow>
   h_livePlotting w s =
     and_then (h_updateData (parse_of w) (s\<lparr>h_filename := abspath (cwd w) f\<rparr>)
                 (h_xindex s) (h_yindex s) (- 1) True)
       (\<lambda>s2. Inr (s2\<lparr>h_file_path := h_filename s2\<rparr>))"
  by (simp add: h_livePlotting_def Let_def)

section \<open>The laboratory files, parsed\<close>

lemma parse_sweep_001:
  "lab_parse ''/lab/Data/sweep_001.csv'' =
     Inr [\<lparr>name = ''V1'', data = [0, 0, 1]\<rparr>, \<lparr>name = ''V2'', data = [1, 3, 5]\<rparr>,
          \<lparr>name = ''V3'', data = [2, 4, 6]\<rparr>]"
  by (simp add: lab_parse_def parse_data_spec_def sweep_001_def)

lemma parse_header_only:
  "lab_parse ''/lab/Data/new.csv'' =
     Inr [\<lparr>name = ''V1'', data = []\<rparr>, \<lparr>name = ''V2'', data = []\<rparr>, \<lparr>name = ''V3'', data = []\<rparr>]"
  by (simp add: lab_parse_def parse_data_spec_def header_only_def)

lemma parse_one_record:
  "lab_parse ''/lab/Data/one.csv'' =
     Inr [\<lparr>name = ''V1'', data = [5]\<rparr>, \<lparr>name = ''V2'', data = [1]\<rparr>, \<lparr>name = ''V3'', data = [2]\<rparr>]"
  by (simp add: lab_parse_def parse_data_spec_def one_record_def)

lemma parse_constant_x:
  "lab_parse ''/lab/Data/const.csv'' =
     Inr [\<lparr>name = ''V1'', data = [5, 5]\<rparr>, \<lparr>name = ''V2'', data = [1, 3]\<rparr>,
          \<lparr>name = ''V3'', data = [2, 4]\<rparr>]"
  by (simp add: lab_parse_def parse_data_spec_def constant_x_def)

lemma parse_grid_sweep:
  "lab_parse ''/lab/Data/grid.csv'' =
     Inr [\<lparr>name = ''Vx'', data = [0, 0, 0, 1, 1, 1, 2, 2, 2, 3]\<rparr>,
          \<lparr>name = ''Vy'', data = [0, 1, 2, 0, 1, 2, 0, 1, 2, 0]\<rparr>,
          \<lparr>name = ''I'', data = [1, 2, 3, 4, 5, 6, 7, 8, 9, 10]\<rparr>]"
  by (simp add: lab_parse_def parse_data_spec_def grid_sweep_def)

lemma parse_two_columns:
  "lab_parse ''/lab/Data/two.csv'' =
     Inr [\<lparr>name = ''V'', data = [0, 1]\<rparr>, \<lparr>name = ''I'', data = [1, 2]\<rparr>]"
  by (simp add: lab_parse_def parse_data_spec_def two_columns_def)

lemma constant_axis_image:
  "sweep_image False [5] [1] [2] = Inl OverflowError"
  "sweep_image False [5, 5] [1, 3] [2, 4] = Inl OverflowError"
  by (simp_all add: sweep_image_def sweep_length_def argmax_def cutoff_def)

lemma grid_image:
  "sweep_image False [0, 0, 0, 1, 1, 1, 2, 2, 2, 3] [0, 1, 2, 0, 1, 2, 0, 1, 2, 0]
       [1, 2, 3, 4, 5, 6, 7, 8, 9, 10]
     = Inr ([[1, 2, 3], [4, 5, 6], [7, 8, 9]], (- 0.5, - 0.5, 4, 3), (1, 9))"
proof -
  let ?c = "[0, 0, 0, 1, 1, 1, 2, 2, 2, 3 :: real]"
  let ?d = "[0, 1, 2, 0, 1, 2, 0, 1, 2, 0 :: real]"
  let ?z = "[1, 2, 3, 4, 5, 6, 7, 8, 9, 10 :: real]"
  let ?rows = "[[1, 2, 3], [4, 5, 6], [7, 8, 9 :: real]]"
  have period: "sweep_length ?c = Inr 3"
    by (simp add: sweep_length_def argmax_def)
  have cut: "cutoff (length ?z) 3 = Inr 3"
    by (simp add: cutoff_def)
  have resh: "np_reshape (take (3 * 3) ?z) 3 = Inr ?rows"
    by (simp add: np_reshape_def rows_of_step rows_of_Nil)
  have rect_x: "rect_fast_x ?c ?d 3 = Inr (- 0.5, - 0.5, 4, 3)"
    by (simp add: rect_fast_x_def py_index_def)
  have lv: "np_min_max ?rows = Inr (1, 9)"
    by (simp add: np_min_max_def)
  show ?thesis
    by (simp only: sweep_image_def not_False_eq_True if_True period cut resh rect_x lv
        and_then_Inr)
qed

lemma grid_image_swapped:
  "sweep_image True [0, 1, 2, 0, 1, 2, 0, 1, 2, 0] [0, 0, 0, 1, 1, 1, 2, 2, 2, 3]
       [1, 2, 3, 4, 5, 6, 7, 8, 9, 10]
     = Inr ([[1, 4, 7], [2, 5, 8], [3, 6, 9]], (- 0.5, - 0.5, 3, 4), (1, 9))"
proof -
  let ?c = "[0, 0, 0, 1, 1, 1, 2, 2, 2, 3 :: real]"
  let ?d = "[0, 1, 2, 0, 1, 2, 0, 1, 2, 0 :: real]"
  let ?z = "[1, 2, 3, 4, 5, 6, 7, 8, 9, 10 :: real]"
  let ?rows = "[[1, 2, 3], [4, 5, 6], [7, 8, 9 :: real]]"
  let ?g = "[[1, 4, 7], [2, 5, 8], [3, 6, 9 :: real]]"
  have period: "sweep_length ?c = Inr 3"
    by (simp add: sweep_length_def argmax_def)
  have cut: "cutoff (length ?z) 3 = Inr 3"
    by (simp add: cutoff_def)
  have resh: "np_reshape (take (3 * 3) ?z) 3 = Inr ?rows"
    by (simp add: np_reshape_def rows_of_step rows_of_Nil)
  have transp: "np_T 3 ?rows = ?g"
    by (simp add: np_T_def numeral_3_eq_3)
  have rect_y: "rect_fast_y ?d ?c 3 = Inr (- 0.5, - 0.5, 3, 4)"
    by (simp add: rect_fast_y_def py_index_def)
  have lvT: "np_min_max ?g = Inr (1, 9)"
    by (simp add: np_min_max_def)
  show ?thesis
    by (simp only: sweep_image_def not_True_eq_False if_False period cut resh rect_y transp lvT
        and_then_Inr)
qed

lemma h_openFileNameDialog_chosen:
  "fileName \<noteq> [] \<Longrightarrow>
   h_openFileNameDialog w s fileName =
     and_then (h_updateData (parse_of w) (s\<lparr>h_livePlot := False, h_filename := fileName\<rparr>)
                 (h_xindex s) (h_yindex s) (- 1) True)
       (\<lambda>s2. Inr (s2\<lparr>h_file_path := h_filename s2\<rparr>))"
  by (simp add: h_openFileNameDialog_def Let_def)

lemma currentIndex_rebuilt:
  "currentIndex (setCurrentIndex (addItems (clear cb) texts) i)
     = (if 0 \<le> i \<and> i < int (length texts) then i else - 1)"
  by (simp add: setCurrentIndex_def addItems_def clear_def)

lemma h_updateData_rebuilt_boxes:
  assumes "h_updateData pd s xi yi zi True = Inr s'"
  shows "\<exists>d. pd (h_filename s) = Inr d
     \<and> currentIndex (h_xbox s') = (if 0 \<le> xi \<and> xi < int (length d) then xi else - 1)
     \<and> currentIndex (h_ybox s') = (if 0 \<le> yi \<and> yi < int (length d) then yi else - 1)"
  using assms
  by (cases rule: h_updateData_shape) (simp_all add: h_load_newFile currentIndex_rebuilt)

lemma py_index_Inr_range:
  "py_index xs i = Inr v \<Longrightarrow> - int (length xs) \<le> i \<and> i < int (length xs)"
  by (auto simp: py_index_def split: if_splits)

lemma py_index_valid:
  "0 \<le> i \<Longrightarrow> i < int (length xs) \<Longrightarrow> py_index xs i = Inr (xs ! nat i)"
  by (simp add: py_index_def)

lemma parse_data_spec_no_records:
  assumes "records f = []"
  shows "\<exists>vs. parse_data_spec f = Inr vs \<and> map name vs = header f
           \<and> list_all (\<lambda>v. data v = []) vs"
proof -
  let ?vs = "map (\<lambda>(i, n). \<lparr>name = n, data = map (\<lambda>r. r ! i) (records f)\<rparr>)
                 (enumerate 0 (header f))"
  from assms have "parse_data_spec f = Inr ?vs"
    by (simp add: parse_data_spec_def)
  moreover have "map name ?vs = map snd (enumerate 0 (header f))"
    by (simp add: case_prod_unfold comp_def)
  then have "map name ?vs = header f" by simp
  moreover from assms have "list_all (\<lambda>v. data v = []) ?vs"
    by (simp add: list_all_iff case_prod_unfold)
  ultimately show ?thesis by blast
qed

section \<open>Runs of the windows on the laboratory files\<close>

lemma parse_four_columns:
  "lab_parse ''/lab/Data/four.csv'' =
     Inr [\<lparr>name = ''Vg'', data = [0, 1]\<rparr>, \<lparr>name = ''Vsd'', data = [1, 2]\<rparr>,
          \<lparr>name = ''I'', data = [2, 3]\<rparr>, \<lparr>name = ''T'', data = [3, 4]\<rparr>]"
  by (simp add: lab_parse_def parse_data_spec_def four_columns_def)

lemma parse_two_header_only:
  "lab_parse ''/lab/Data/two_new.csv'' =
     Inr [\<lparr>name = ''V'', data = []\<rparr>, \<lparr>name = ''I'', data = []\<rparr>]"
  by (simp add: lab_parse_def parse_data_spec_def two_header_only_def)

lemmas run_heatmap = heatmap_defs widget_defs h_init_def no_items_def lab_def Let_def
  parse_sweep_001 parse_header_only parse_one_record parse_constant_x parse_grid_sweep
  parse_two_columns parse_four_columns parse_two_header_only grid_image constant_axis_image

lemma grid_image_window:
  "\<exists>s2. and_then (h_openFileNameDialog (lab None) h_init ''/lab/Data/grid.csv'')
            (\<lambda>s. h_zboxindex lab_parse s 2) = Inr s2
        \<and> h_graphs s2 = ImageWidget
        \<and> h_var_names s2 = Some [''Vx'', ''Vy'', ''I'', ''<none>'']
        \<and> h_image s2 = [[1, 2, 3], [4, 5, 6], [7, 8, 9]]
        \<and> h_filename s2 = ''/lab/Data/grid.csv''
        \<and> h_xindex s2 = 0 \<and> h_yindex s2 = 1 \<and> h_zindex s2 = 2"
  by (simp add: run_heatmap)

lemmas run_dual = dual_defs widget_defs d_init_def no_items_def lab_def Let_def
  parse_sweep_001 parse_header_only parse_one_record parse_constant_x parse_grid_sweep
  parse_two_columns parse_four_columns parse_two_header_only

text \<open>
  The scenario of the specification: the folder holds \<^verbatim>\<open>sweep_001.csv\<close> alone, and a poll
  of the heatmap window draws the line of \<open>V2\<close> against \<open>V1\<close>.
\<close>

lemma specification_scenario:
  "\<exists>s'. h_livePlotting (lab (Some (Dir 50 [(''sweep_001.csv'', File 100)]))) h_init = Inr s'
     \<and> h_filename s' = ''/lab/Data/sweep_001.csv'' \<and> h_graphs s' = GraphWidget
     \<and> h_data_line s' = ([0, 0, 1], [1, 3, 5]) \<and> h_graph_labels s' = (''V1'', ''V2'')"
  by (simp add: run_heatmap folder_defs)

section \<open>Claims about the sweep geometry\<close>

text \<open>
  Claim C1.  The period is the first index whose coordinate differs from the first
  sample: 3 for the axis 0,0,0,1,1,1,2,2,2 (in general by \<open>sweep_length_first_change\<close>).
  The claim continues that an axis that never changes, such as the single sample 5,
  gets the period one and raises nothing.  The code gives such an axis the period 0
  (\<open>sweep_length_constant\<close>): \<^verbatim>\<open>np.argmax\<close> of an all-false array is 0, the floor
  \<^verbatim>\<open>max(..., 1)\<close> is applied to the row count after the division by the period, and the
  division by zero makes \<^verbatim>\<open>int\<close> raise.  The last two conjuncts are the same failure
  in the window: a file with one record, or one whose first column stays at 5, is
  opened and a value column is chosen.
\<close>

theorem constant_axis_period_zero:
  "sweep_length [0, 0, 0, 1, 1, 1, 2, 2, 2] = Inr 3
   \<and> sweep_length [5] = Inr 0 \<and> sweep_length [5, 5] = Inr 0
   \<and> sweep_image False [5] [1] [2] = Inl OverflowError
   \<and> and_then (h_openFileNameDialog (lab None) h_init ''/lab/Data/one.csv'')
        (\<lambda>s. h_zboxindex lab_parse s 2) = Inl OverflowError
   \<and> and_then (h_openFileNameDialog (lab None) h_init ''/lab/Data/const.csv'')
        (\<lambda>s. h_zboxindex lab_parse s 2) = Inl OverflowError"
  by (simp add: run_heatmap sweep_length_def argmax_def)

text \<open>
  Claim C2.  Whenever the image branch produces an image, the values it shows are the
  rows of the prefix of the value series whose length is the largest multiple of the
  period \<open>n\<close> not exceeding the series' length: \<open>length zs div n\<close> rows of \<open>n\<close> samples
  each, fewer than \<open>n\<close> trailing samples being dropped; with \<^emph>\<open>Swap slow axis\<close> checked
  the period is that of the y axis and the rows are transposed.  The image is produced
  whenever the three series have the same length and the period is not zero.  Ten
  values with the period 3 give the three by three image of the first nine.
\<close>

theorem reshape_uses_whole_rows:
  "(sweep_image slow xs ys zs = Inr (g, r, lv) \<longrightarrow>
      (\<exists>n rows. sweep_length (if slow then ys else xs) = Inr n \<and> 0 < n \<and> n \<le> length zs
         \<and> concat rows = take (n * (length zs div n)) zs
         \<and> length rows = length zs div n
         \<and> list_all (\<lambda>row. length row = n) rows
         \<and> length zs < n * (length zs div n) + n
         \<and> g = (if slow then np_T n rows else rows)))
   \<and> (length xs = length zs \<and> length ys = length zs
        \<and> sweep_length (if slow then ys else xs) = Inr m \<and> 0 < m \<longrightarrow>
      (\<exists>res. sweep_image slow xs ys zs = Inr res))"
  using sweep_image_rows[of slow xs ys zs g r lv] sweep_image_total[of xs zs ys slow m]
  by blast

theorem reshape_uses_whole_rows_witness:
  "sweep_image False [0, 0, 0, 1, 1, 1, 2, 2, 2, 3] [0, 1, 2, 0, 1, 2, 0, 1, 2, 0]
       [1, 2, 3, 4, 5, 6, 7, 8, 9, 10]
     = Inr ([[1, 2, 3], [4, 5, 6], [7, 8, 9]], (- 0.5, - 0.5, 4, 3), (1, 9))
   \<and> sweep_image True [0, 1, 2, 0, 1, 2, 0, 1, 2, 0] [0, 0, 0, 1, 1, 1, 2, 2, 2, 3]
       [1, 2, 3, 4, 5, 6, 7, 8, 9, 10]
     = Inr ([[1, 4, 7], [2, 5, 8], [3, 6, 9]], (- 0.5, - 0.5, 3, 4), (1, 9))
   \<and> (\<exists>rows. concat rows = [1, 2, 3, 4, 5, 6, 7, 8, 9 :: real] \<and> length rows = 3
         \<and> list_all (\<lambda>row. length row = 3) rows
         \<and> [[1, 4, 7], [2, 5, 8], [3, 6, 9]] = np_T 3 rows)"
proof -
  let ?c = "[0, 0, 0, 1, 1, 1, 2, 2, 2, 3 :: real]"
  let ?d = "[0, 1, 2, 0, 1, 2, 0, 1, 2, 0 :: real]"
  let ?z = "[1, 2, 3, 4, 5, 6, 7, 8, 9, 10 :: real]"
  let ?g = "[[1, 4, 7], [2, 5, 8], [3, 6, 9 :: real]]"
  have period: "sweep_length ?c = Inr 3"
    by (simp add: sweep_length_def argmax_def)
  note plain = grid_image
  note swapped = grid_image_swapped
  note inst = reshape_uses_whole_rows[of True ?d ?c ?z ?g "(- 0.5, - 0.5, 3, 4)" "(1, 9)",
      THEN conjunct1, rule_format, OF swapped]
  then obtain n rows where n: "sweep_length (if True then ?c else ?d) = Inr n"
    and cat: "concat rows = take (n * (length ?z div n)) ?z"
    and len: "length rows = length ?z div n"
    and all: "list_all (\<lambda>row. length row = n) rows"
    and g: "?g = (if True then np_T n rows else rows)"
    by blast
  from n period have n3: "n = 3" by simp
  have "take (3 * (length ?z div 3)) ?z = [1, 2, 3, 4, 5, 6, 7, 8, 9]"
    by simp
  with cat n3 have cat3: "concat rows = [1, 2, 3, 4, 5, 6, 7, 8, 9]" by (simp only:)
  from len n3 have len3: "length rows = 3" by simp
  from all n3 have all3: "list_all (\<lambda>row. length row = 3) rows" by (simp only:)
  from g n3 have g3: "?g = np_T 3 rows" by (simp only: if_True)
  from plain swapped cat3 len3 all3 g3 show ?thesis by (intro conjI exI[of _ rows])
qed





section \<open>Claims about the search for the latest file\<close>

text \<open>
  Claim C4.  The claim is that the most recently modified file among those whose name
  ends in \<^verbatim>\<open>.csv\<close> is returned, and the empty result when none matches.  Among stamped
  files the code does return the first one of greatest stamp, and nothing when there is
  no candidate (\<open>latest_file_walk_result\<close>; first and second conjunct below).  But its
  test is \<^verbatim>\<open>'.csv' in f\<close> on the joined path: a backup \<^verbatim>\<open>b.csv.bak\<close>, or any file
  below a folder whose name contains \<^verbatim>\<open>.csv\<close>, takes part and wins when it is newer
  (third and fourth conjunct).  And since \<^verbatim>\<open>max_stamp\<close> starts at 0 and the comparison is
  strict, a matching file stamped 0 is never returned (last conjunct).
\<close>

theorem substring_filter_not_suffix:
  "latest_file_walk (lab (Some (Dir 50 [(''a.csv'', File 1), (''b.csv'', File 3), (''c.csv'', File 2)])))
     = Inr ''Data/b.csv''
   \<and> latest_file_walk (lab (Some (Dir 50 [(''notes.txt'', File 9)]))) = Inr []
   \<and> latest_file_walk (lab (Some (Dir 50 [(''a.csv'', File 100), (''b.csv.bak'', File 200)])))
     = Inr ''Data/b.csv.bak''
   \<and> latest_file_walk (lab (Some (Dir 50 [(''a.csv'', File 100),
          (''old.csv.d'', Dir 60 [(''notes.txt'', File 200)])])))
     = Inr ''Data/old.csv.d/notes.txt''
   \<and> latest_file_walk (lab (Some (Dir 50 [(''a.csv'', File 0)]))) = Inr []"
  by (simp add: folder_defs lab_def)

text \<open>
  Claim C5.  The claim is that a poll tick on an empty, missing or unreadable folder
  finds no file and changes nothing.  This holds in the dual and the heatmap window,
  whose \<^verbatim>\<open>os.walk\<close> ignores a folder it cannot list, and it holds in \<^verbatim>\<open>QTMplot\<close> for an
  empty folder.  \<^verbatim>\<open>QTMplot\<close> lists the folder with \<^verbatim>\<open>os.listdir\<close>, which raises when the
  folder is missing or unreadable, and the tick ends with that exception.
\<close>

theorem listdir_poll_raises:
  "p_livePlotting (w\<lparr>data_dir := None\<rparr>) s = Inl OSError
   \<and> p_livePlotting (w\<lparr>data_dir := Some (Locked t)\<rparr>) s = Inl OSError
   \<and> p_livePlotting (w\<lparr>data_dir := Some (Dir t [])\<rparr>) s = Inr s
   \<and> d_livePlotting (w\<lparr>data_dir := None\<rparr>) d = Inr d
   \<and> d_livePlotting (w\<lparr>data_dir := Some (Locked t)\<rparr>) d = Inr d
   \<and> d_livePlotting (w\<lparr>data_dir := Some (Dir t [])\<rparr>) d = Inr d
   \<and> h_livePlotting (w\<lparr>data_dir := None\<rparr>) h = Inr h
   \<and> h_livePlotting (w\<lparr>data_dir := Some (Locked t)\<rparr>) h = Inr h
   \<and> h_livePlotting (w\<lparr>data_dir := Some (Dir t [])\<rparr>) h = Inr h"
  by (simp add: p_livePlotting_def latest_file_listdir_def listdir_def
      h_livePlotting_nothing d_livePlotting_nothing latest_file_walk_nothing)

section \<open>Claims about the refresh controller\<close>

text \<open>
  Claim C6.  When the value index is the position of \<^verbatim>\<open><none>\<close>, the last one of the
  variable names, \<^verbatim>\<open>updateData\<close> ends with the line plot in front, showing the x and y
  series (or nothing, when the x series is empty), and leaves the image, its rectangle
  and its levels as they were; so does the slot of the value selector.  The plot
  branch taken is the cleared plot or \<open>h_linePlot\<close>, never \<open>h_imagePlot\<close>, whatever the
  window showed before.
\<close>

theorem none_entry_line_plot:
  "(h_updateData pd s xi yi zi nf = Inr s' \<and> h_var_names s' = Some vn
      \<and> zi = int (length vn) - 1 \<longrightarrow>
    h_graphs s' = GraphWidget \<and> h_image s' = h_image s \<and> h_z s' = h_z s
      \<and> h_rect s' = h_rect s \<and> h_levels s' = h_levels s
      \<and> h_data_line s' = (h_x s', h_y s')
      \<and> (\<exists>d xv. pd (h_filename s) = Inr d \<and> py_index d xi = Inr xv
           \<and> (data xv = [] \<and> h_x s' = [] \<and> h_y s' = []
               \<or> (\<exists>yv. py_index d yi = Inr yv \<and> h_x s' = data xv \<and> h_y s' = data yv))))
   \<and> (h_var_names s = Some vn \<and> h_zboxindex pd s (int (length vn) - 1) = Inr s' \<longrightarrow>
        h_graphs s' = GraphWidget \<and> h_image s' = h_image s \<and> h_z s' = h_z s
          \<and> h_data_line s' = (h_x s', h_y s') \<and> h_zindex s' = int (length vn) - 1)
   \<and> (h_var_names s = Some vn \<and> zi = int (length vn) - 1 \<longrightarrow>
        h_plot s xv xi yi zi
          = (if data xv = [] then Inr (h_noData s) else h_linePlot s vn xi yi))"
proof (intro conjI impI)
  assume a: "h_updateData pd s xi yi zi nf = Inr s' \<and> h_var_names s' = Some vn
      \<and> zi = int (length vn) - 1"
  then have "h_graphs s' = GraphWidget \<and> h_image s' = h_image s \<and> h_z s' = h_z s
     \<and> h_rect s' = h_rect s \<and> h_levels s' = h_levels s
     \<and> h_data_line s' = (h_x s', h_y s')
     \<and> (\<exists>d xv. pd (h_filename s) = Inr d \<and> py_index d xi = Inr xv
          \<and> (data xv = [] \<and> h_x s' = [] \<and> h_y s' = []
              \<or> (\<exists>yv. py_index d yi = Inr yv \<and> h_x s' = data xv \<and> h_y s' = data yv)))"
    using h_updateData_sentinel[of pd s xi yi zi nf s' vn] by blast
  then show "h_graphs s' = GraphWidget" "h_image s' = h_image s" "h_z s' = h_z s"
    "h_rect s' = h_rect s" "h_levels s' = h_levels s" "h_data_line s' = (h_x s', h_y s')"
    "\<exists>d xv. pd (h_filename s) = Inr d \<and> py_index d xi = Inr xv
          \<and> (data xv = [] \<and> h_x s' = [] \<and> h_y s' = []
              \<or> (\<exists>yv. py_index d yi = Inr yv \<and> h_x s' = data xv \<and> h_y s' = data yv))"
    by blast+
next
  assume b: "h_var_names s = Some vn \<and> h_zboxindex pd s (int (length vn) - 1) = Inr s'"
  let ?s1 = "s\<lparr>h_zindex := int (length vn) - 1\<rparr>"
  from b have v: "h_var_names s = Some vn"
    and z: "h_zboxindex pd s (int (length vn) - 1) = Inr s'"
    by blast+
  from z have run: "h_updateData pd ?s1 (h_xindex s) (h_yindex s) (- 1) False = Inr s'"
    by (simp add: h_zboxindex_def py_attr_def Let_def v)
  from h_updateData_refresh[OF run] v have vn': "h_var_names s' = Some vn" by simp
  from h_updateData_sentinel[OF run vn'] have
    c: "h_graphs s' = GraphWidget \<and> h_image s' = h_image s \<and> h_z s' = h_z s
        \<and> h_data_line s' = (h_x s', h_y s')"
    by simp
  from run v have "h_zindex s' = int (length vn) - 1"
    by (cases rule: h_updateData_shape) (auto simp: h_load_refresh)
  with c show "h_graphs s' = GraphWidget" "h_image s' = h_image s" "h_z s' = h_z s"
    "h_data_line s' = (h_x s', h_y s')" "h_zindex s' = int (length vn) - 1"
    by blast+
next
  assume "h_var_names s = Some vn \<and> zi = int (length vn) - 1"
  then show "h_plot s xv xi yi zi
          = (if data xv = [] then Inr (h_noData s) else h_linePlot s vn xi yi)"
    by (simp add: h_plot_def py_attr_def)
qed

theorem none_entry_line_plot_witness:
  "\<exists>s2 s3 s4.
      and_then (h_openFileNameDialog (lab None) h_init ''/lab/Data/grid.csv'')
        (\<lambda>s. h_zboxindex lab_parse s 2) = Inr s2
      \<and> h_graphs s2 = ImageWidget
      \<and> h_zboxindex lab_parse s2 3 = Inr s3
      \<and> h_graphs s3 = GraphWidget \<and> h_image s3 = [[1, 2, 3], [4, 5, 6], [7, 8, 9]]
      \<and> h_data_line s3 = (h_x s3, h_y s3) \<and> h_zindex s3 = 3
      \<and> h_updateData lab_parse s2 0 1 3 False = Inr s4
      \<and> h_graphs s4 = GraphWidget \<and> h_image s4 = [[1, 2, 3], [4, 5, 6], [7, 8, 9]]
      \<and> h_data_line s4 = (h_x s4, h_y s4)"
proof -
  let ?start = "and_then (h_openFileNameDialog (lab None) h_init ''/lab/Data/grid.csv'')
        (\<lambda>s. h_zboxindex lab_parse s 2)"
  let ?vn = "[''Vx'', ''Vy'', ''I'', ''<none>'']"
  from grid_image_window obtain s2 where s2: "?start = Inr s2"
    and shown: "h_graphs s2 = ImageWidget" and vn: "h_var_names s2 = Some ?vn"
    and im: "h_image s2 = [[1, 2, 3], [4, 5, 6], [7, 8, 9]]"
    by blast
  have last: "int (length ?vn) - 1 = 3" by simp
  have "\<exists>s3. and_then ?start (\<lambda>s. h_zboxindex lab_parse s 3) = Inr s3"
    by (simp add: run_heatmap)
  then obtain s3 where s3: "h_zboxindex lab_parse s2 3 = Inr s3"
    unfolding s2 and_then_Inr by blast
  have "\<exists>s4. and_then ?start (\<lambda>s. h_updateData lab_parse s 0 1 3 False) = Inr s4"
    by (simp add: run_heatmap)
  then obtain s4 where s4: "h_updateData lab_parse s2 0 1 3 False = Inr s4"
    unfolding s2 and_then_Inr by blast
  from h_updateData_refresh[OF s4] vn have vn4: "h_var_names s4 = Some ?vn" by simp
  from none_entry_line_plot[of lab_parse s2 0 1 3 False s4 ?vn, THEN conjunct1, rule_format]
    s4 vn4 last
  have c4: "h_graphs s4 = GraphWidget" "h_image s4 = h_image s2"
    "h_data_line s4 = (h_x s4, h_y s4)"
    by simp_all
  from none_entry_line_plot[where pd = lab_parse and s = s2 and s' = s3 and vn = ?vn,
      THEN conjunct2, THEN conjunct1, rule_format] s3 vn last
  have c3: "h_graphs s3 = GraphWidget" "h_image s3 = h_image s2"
    "h_data_line s3 = (h_x s3, h_y s3)" "h_zindex s3 = 3"
    by simp_all
  from s2 shown s3 s4 c3 c4 im show ?thesis
    by (intro exI[of _ s2] exI[of _ s3] exI[of _ s4]) simp
qed

text \<open>
  Claim C7.  A refresh, \<^verbatim>\<open>updateData\<close> without \<^verbatim>\<open>newFile\<close>, leaves the variable names, the
  selectors and the chosen indices of the dual window as they are, while a new file
  sets the items of every selector to the names of the parsed file.  In the poll loop
  of the heatmap window a tick that finds the file already shown is such a refresh: the
  names, the selectors' items and the x and y indices stay, and so does the value index
  (which is never -1 in a window: it starts at 2 and is only set to positions of the
  selector).  A tick that finds another path rebuilds the selectors from that file, and
  a tick that finds no file does nothing.
\<close>

theorem refresh_keeps_selectors:
  "(d_updateData pd ds xi yi yi2 False = Inr ds' \<longrightarrow>
      d_var_names ds' = d_var_names ds \<and> d_xbox ds' = d_xbox ds \<and> d_ybox ds' = d_ybox ds
        \<and> d_ybox2 ds' = d_ybox2 ds \<and> d_xindex ds' = d_xindex ds
        \<and> d_yindex ds' = d_yindex ds \<and> d_yindex2 ds' = d_yindex2 ds)
   \<and> (d_updateData pd ds xi yi yi2 True = Inr ds' \<longrightarrow>
      (\<exists>d. pd (d_filename ds) = Inr d \<and> d_var_names ds' = Some (map name d)
         \<and> items (d_xbox ds') = map name d \<and> items (d_ybox ds') = map name d
         \<and> items (d_ybox2 ds') = map name d))
   \<and> (latest_file_walk w = Inr f \<and> f \<noteq> [] \<and> abspath (cwd w) f = h_filename s \<longrightarrow>
      h_livePlotting w s =
        and_then (h_updateData (parse_of w) s (h_xindex s) (h_yindex s) (h_zindex s) False)
          (\<lambda>s2. Inr (s2\<lparr>h_file_path := h_filename s2\<rparr>)))
   \<and> (latest_file_walk w = Inr f \<and> f \<noteq> [] \<and> abspath (cwd w) f = h_filename s
        \<and> h_livePlotting w s = Inr s' \<longrightarrow>
      h_var_names s' = h_var_names s \<and> h_xbox s' = h_xbox s \<and> h_ybox s' = h_ybox s
        \<and> items (h_zbox s') = items (h_zbox s) \<and> h_xindex s' = h_xindex s
        \<and> h_yindex s' = h_yindex s \<and> h_filename s' = h_filename s
        \<and> (h_zindex s \<noteq> - 1 \<longrightarrow> h_zindex s' = h_zindex s))
   \<and> (latest_file_walk w = Inr f \<and> f \<noteq> [] \<and> abspath (cwd w) f \<noteq> h_filename s
        \<and> h_livePlotting w s = Inr s' \<longrightarrow>
      h_filename s' = abspath (cwd w) f
        \<and> (\<exists>d. parse_of w (abspath (cwd w) f) = Inr d \<and> items (h_xbox s') = map name d
              \<and> items (h_ybox s') = map name d
              \<and> items (h_zbox s') = map name d @ [''<none>'']))
   \<and> (latest_file_walk w = Inr [] \<longrightarrow> h_livePlotting w s = Inr s)"
proof (intro conjI impI)
  assume "d_updateData pd ds xi yi yi2 False = Inr ds'"
  from d_updateData_refresh[OF this]
  show "d_var_names ds' = d_var_names ds" "d_xbox ds' = d_xbox ds" "d_ybox ds' = d_ybox ds"
    "d_ybox2 ds' = d_ybox2 ds" "d_xindex ds' = d_xindex ds" "d_yindex ds' = d_yindex ds"
    "d_yindex2 ds' = d_yindex2 ds"
    by blast+
next
  assume "d_updateData pd ds xi yi yi2 True = Inr ds'"
  from d_updateData_rebuild[OF this]
  show "\<exists>d. pd (d_filename ds) = Inr d \<and> d_var_names ds' = Some (map name d)
         \<and> items (d_xbox ds') = map name d \<and> items (d_ybox ds') = map name d
         \<and> items (d_ybox2 ds') = map name d"
    by blast
next
  assume "latest_file_walk w = Inr f \<and> f \<noteq> [] \<and> abspath (cwd w) f = h_filename s"
  then show "h_livePlotting w s =
        and_then (h_updateData (parse_of w) s (h_xindex s) (h_yindex s) (h_zindex s) False)
          (\<lambda>s2. Inr (s2\<lparr>h_file_path := h_filename s2\<rparr>))"
    using h_livePlotting_same[of w f s] by blast
next
  assume a: "latest_file_walk w = Inr f \<and> f \<noteq> [] \<and> abspath (cwd w) f = h_filename s
        \<and> h_livePlotting w s = Inr s'"
  then have "and_then (h_updateData (parse_of w) s (h_xindex s) (h_yindex s) (h_zindex s) False)
          (\<lambda>s2. Inr (s2\<lparr>h_file_path := h_filename s2\<rparr>)) = Inr s'"
    using h_livePlotting_same[of w f s] by simp
  then obtain s2 where run: "h_updateData (parse_of w) s (h_xindex s) (h_yindex s) (h_zindex s) False = Inr s2"
    and s': "s' = s2\<lparr>h_file_path := h_filename s2\<rparr>"
    by (auto simp: and_then_eq_Inr)
  from h_updateData_refresh[OF run] h_updateData_keeps[OF run] s'
  show "h_var_names s' = h_var_names s" "h_xbox s' = h_xbox s" "h_ybox s' = h_ybox s"
    "items (h_zbox s') = items (h_zbox s)" "h_xindex s' = h_xindex s"
    "h_yindex s' = h_yindex s" "h_filename s' = h_filename s"
    by simp_all
  assume "h_zindex s \<noteq> - 1"
  with h_updateData_refresh[OF run] s' show "h_zindex s' = h_zindex s" by simp
next
  assume a: "latest_file_walk w = Inr f \<and> f \<noteq> [] \<and> abspath (cwd w) f \<noteq> h_filename s
        \<and> h_livePlotting w s = Inr s'"
  let ?s1 = "s\<lparr>h_filename := abspath (cwd w) f\<rparr>"
  from a have "and_then (h_updateData (parse_of w) ?s1 (h_xindex s) (h_yindex s) (- 1) True)
       (\<lambda>s2. Inr (s2\<lparr>h_file_path := h_filename s2\<rparr>)) = Inr s'"
    using h_livePlotting_new[of w f s] by simp
  then obtain s2 where run: "h_updateData (parse_of w) ?s1 (h_xindex s) (h_yindex s) (- 1) True = Inr s2"
    and s': "s' = s2\<lparr>h_file_path := h_filename s2\<rparr>"
    by (auto simp: and_then_eq_Inr)
  from h_updateData_rebuild[OF run] h_updateData_keeps[OF run] s'
  show "h_filename s' = abspath (cwd w) f"
    "\<exists>d. parse_of w (abspath (cwd w) f) = Inr d \<and> items (h_xbox s') = map name d
              \<and> items (h_ybox s') = map name d
              \<and> items (h_zbox s') = map name d @ [''<none>'']"
    by auto
next
  assume "latest_file_walk w = Inr []"
  then show "h_livePlotting w s = Inr s" by (rule h_livePlotting_nothing)
qed

theorem refresh_keeps_selectors_witness:
  "\<exists>ds1 ds2 s1 s2.
      d_updateData lab_parse (d_init\<lparr>d_filename := ''/lab/Data/sweep_001.csv''\<rparr>) 0 1 2 True
        = Inr ds1
      \<and> items (d_xbox ds1) = [''V1'', ''V2'', ''V3''] \<and> items (d_ybox2 ds1) = [''V1'', ''V2'', ''V3'']
      \<and> d_updateData lab_parse ds1 0 1 2 False = Inr ds2
      \<and> d_xbox ds2 = d_xbox ds1 \<and> d_ybox ds2 = d_ybox ds1 \<and> d_ybox2 ds2 = d_ybox2 ds1
      \<and> d_var_names ds2 = d_var_names ds1
      \<and> h_livePlotting (lab (Some (Dir 50 [(''sweep_001.csv'', File 100)]))) h_init = Inr s1
      \<and> h_filename s1 = ''/lab/Data/sweep_001.csv''
      \<and> items (h_xbox s1) = [''V1'', ''V2'', ''V3'']
      \<and> items (h_zbox s1) = [''V1'', ''V2'', ''V3'', ''<none>'']
      \<and> h_livePlotting (lab (Some (Dir 50 [(''sweep_001.csv'', File 100)]))) s1 = Inr s2
      \<and> h_xbox s2 = h_xbox s1 \<and> h_ybox s2 = h_ybox s1 \<and> items (h_zbox s2) = items (h_zbox s1)
      \<and> h_var_names s2 = h_var_names s1 \<and> h_zindex s2 = h_zindex s1
      \<and> h_livePlotting (lab (Some (Dir 50 []))) s2 = Inr s2"
proof -
  let ?dstart = "d_init\<lparr>d_filename := ''/lab/Data/sweep_001.csv''\<rparr>"
  let ?w = "lab (Some (Dir 50 [(''sweep_001.csv'', File 100)]))"
  let ?f = "''/lab/Data/sweep_001.csv''"
  let ?d = "[\<lparr>name = ''V1'', data = [0, 0, 1]\<rparr>, \<lparr>name = ''V2'', data = [1, 3, 5]\<rparr>,
          \<lparr>name = ''V3'', data = [2, 4, 6 :: real]\<rparr>]"
  have names: "map name ?d = [''V1'', ''V2'', ''V3'']" by simp
  have parse: "parse_of ?w = lab_parse" by (simp add: lab_def)
  \<comment> \<open>the dual window: a new file, then a refresh\<close>
  have "\<exists>ds1. d_updateData lab_parse ?dstart 0 1 2 True = Inr ds1"
    by (simp add: run_dual)
  then obtain ds1 where ds1: "d_updateData lab_parse ?dstart 0 1 2 True = Inr ds1" by blast
  from refresh_keeps_selectors[where pd = lab_parse and ds = ?dstart and xi = 0 and yi = 1
      and ?yi2.0 = 2 and ds' = ds1, THEN conjunct2, THEN conjunct1, rule_format, OF ds1]
  obtain d where d: "lab_parse (d_filename ?dstart) = Inr d"
    and it: "items (d_xbox ds1) = map name d" "items (d_ybox2 ds1) = map name d"
    by blast
  from d have "d = ?d" by (simp add: parse_sweep_001 d_init_def)
  with it names have it1: "items (d_xbox ds1) = [''V1'', ''V2'', ''V3'']"
    "items (d_ybox2 ds1) = [''V1'', ''V2'', ''V3'']"
    by simp_all
  have "\<exists>ds2. and_then (d_updateData lab_parse ?dstart 0 1 2 True)
          (\<lambda>s. d_updateData lab_parse s 0 1 2 False) = Inr ds2"
    by (simp add: run_dual)
  then obtain ds2 where ds2: "d_updateData lab_parse ds1 0 1 2 False = Inr ds2"
    unfolding ds1 and_then_Inr by blast
  from refresh_keeps_selectors[where pd = lab_parse and ds = ds1 and xi = 0 and yi = 1
      and ?yi2.0 = 2 and ds' = ds2, THEN conjunct1, rule_format, OF ds2]
  have keep: "d_xbox ds2 = d_xbox ds1" "d_ybox ds2 = d_ybox ds1" "d_ybox2 ds2 = d_ybox2 ds1"
    "d_var_names ds2 = d_var_names ds1"
    by simp_all
  \<comment> \<open>the heatmap window: the first tick finds a new file, the second the same file\<close>
  have latest: "latest_file_walk ?w = Inr ''Data/sweep_001.csv''"
    by (simp add: folder_defs lab_def)
  have ne: "''Data/sweep_001.csv'' \<noteq> []" by simp
  have path: "abspath (cwd ?w) ''Data/sweep_001.csv'' = ?f"
    by (simp add: abspath_def path_join_def lab_def)
  have fresh: "abspath (cwd ?w) ''Data/sweep_001.csv'' \<noteq> h_filename h_init"
    by (simp add: path h_init_def)
  have "\<exists>s1. h_livePlotting ?w h_init = Inr s1 \<and> h_zindex s1 = 3"
    by (simp add: run_heatmap folder_defs)
  then obtain s1 where s1: "h_livePlotting ?w h_init = Inr s1" and z1: "h_zindex s1 = 3"
    by blast
  from refresh_keeps_selectors[where w = ?w and f = "''Data/sweep_001.csv''" and s = h_init
      and s' = s1, THEN conjunct2, THEN conjunct2, THEN conjunct2, THEN conjunct2,
      THEN conjunct1, rule_format] latest ne fresh s1
  obtain d' where f1: "h_filename s1 = abspath (cwd ?w) ''Data/sweep_001.csv''"
    and d': "parse_of ?w (abspath (cwd ?w) ''Data/sweep_001.csv'') = Inr d'"
    and it': "items (h_xbox s1) = map name d'" "items (h_zbox s1) = map name d' @ [''<none>'']"
    by blast
  from d' have "d' = ?d" by (simp add: path parse parse_sweep_001)
  with it' names have ith: "items (h_xbox s1) = [''V1'', ''V2'', ''V3'']"
    "items (h_zbox s1) = [''V1'', ''V2'', ''V3'', ''<none>'']"
    by simp_all
  from f1 path have file1: "h_filename s1 = ?f" by simp
  have "\<exists>s2. and_then (h_livePlotting ?w h_init) (\<lambda>s. h_livePlotting ?w s) = Inr s2"
    by (simp add: run_heatmap folder_defs)
  then obtain s2 where s2: "h_livePlotting ?w s1 = Inr s2"
    unfolding s1 and_then_Inr by blast
  from path file1 have same: "abspath (cwd ?w) ''Data/sweep_001.csv'' = h_filename s1" by simp
  from refresh_keeps_selectors[where w = ?w and f = "''Data/sweep_001.csv''" and s = s1
      and s' = s2, THEN conjunct2, THEN conjunct2, THEN conjunct2, THEN conjunct1,
      rule_format] latest ne same s2 z1
  have keeph: "h_xbox s2 = h_xbox s1" "h_ybox s2 = h_ybox s1"
    "items (h_zbox s2) = items (h_zbox s1)" "h_var_names s2 = h_var_names s1"
    "h_zindex s2 = h_zindex s1"
    by simp_all
  have "latest_file_walk (lab (Some (Dir 50 []))) = Inr []"
    by (simp add: folder_defs lab_def)
  with refresh_keeps_selectors[where w = "lab (Some (Dir 50 []))" and s = s2]
  have idle: "h_livePlotting (lab (Some (Dir 50 []))) s2 = Inr s2" by blast
  from ds1 it1 ds2 keep s1 file1 ith s2 keeph idle show ?thesis
    by (intro exI[of _ ds1] exI[of _ ds2] exI[of _ s1] exI[of _ s2]) simp
qed

text \<open>
  Claim C8 says that a file switch clamps the chosen indices into the range of the new
  variable list.  Nothing is clamped.  A window with its initial indices 0, 1 and 2
  (dual), or with the y index 2 (heatmap), that finds a file of two columns reads
  \<^verbatim>\<open>self.data[2]\<close> and raises.
\<close>

theorem file_switch_keeps_stale_index:
  "d_livePlotting (lab (Some (Dir 50 [(''two.csv'', File 100)]))) d_init = Inl IndexError
   \<and> h_livePlotting (lab (Some (Dir 50 [(''two.csv'', File 100)]))) (h_init\<lparr>h_yindex := 2\<rparr>)
       = Inl IndexError"
  by (simp add: heatmap_defs dual_defs widget_defs h_init_def d_init_def no_items_def lab_def
      Let_def parse_two_columns folder_defs)

text \<open>
  Claim C8, as the code has it.  A file switch stores the parsed file, rebuilds the
  variable names and sets the items of the selectors to them (the value selector
  ending in \<^verbatim>\<open><none>\<close>).  The x and y indices of the window are kept as they are; a
  selector given an index that is no item shows no current item.  The heatmap's value
  index becomes the position of \<^verbatim>\<open><none>\<close>.  The switch returns only when the x index
  addresses a variable of the new file.
\<close>

theorem file_switch_rebuilds_selectors:
  "(h_updateData pd s xi yi zi True = Inr s' \<longrightarrow>
      (\<exists>d. pd (h_filename s) = Inr d \<and> h_data s' = d
         \<and> h_var_names s' = Some (map name d @ [''<none>''])
         \<and> items (h_xbox s') = map name d \<and> items (h_ybox s') = map name d
         \<and> items (h_zbox s') = map name d @ [''<none>'']
         \<and> h_xindex s' = h_xindex s \<and> h_yindex s' = h_yindex s
         \<and> h_zindex s' = int (length d)
         \<and> - int (length d) \<le> xi \<and> xi < int (length d)
         \<and> currentIndex (h_xbox s') = (if 0 \<le> xi \<and> xi < int (length d) then xi else - 1)
         \<and> currentIndex (h_ybox s') = (if 0 \<le> yi \<and> yi < int (length d) then yi else - 1)))
   \<and> (d_updateData pd ds xi yi yi2 True = Inr ds' \<longrightarrow>
      (\<exists>d. pd (d_filename ds) = Inr d \<and> d_data ds' = d
         \<and> d_var_names ds' = Some (map name d)
         \<and> items (d_xbox ds') = map name d \<and> items (d_ybox ds') = map name d
         \<and> items (d_ybox2 ds') = map name d
         \<and> d_xindex ds' = d_xindex ds \<and> d_yindex ds' = d_yindex ds
         \<and> d_yindex2 ds' = d_yindex2 ds
         \<and> - int (length d) \<le> xi \<and> xi < int (length d)))"
proof (intro conjI impI)
  assume run: "h_updateData pd s xi yi zi True = Inr s'"
  from h_updateData_rebuild[OF run] obtain d where d: "pd (h_filename s) = Inr d"
    and r: "h_data s' = d" "h_var_names s' = Some (map name d @ [''<none>''])"
      "items (h_xbox s') = map name d" "items (h_ybox s') = map name d"
      "items (h_zbox s') = map name d @ [''<none>'']" "h_zindex s' = int (length d)"
    by blast
  from h_updateData_Inr[OF run] d obtain xv where "py_index d xi = Inr xv" by auto
  from py_index_Inr_range[OF this] have range: "- int (length d) \<le> xi \<and> xi < int (length d)" .
  from h_updateData_rebuilt_boxes[OF run] d
  have cur: "currentIndex (h_xbox s') = (if 0 \<le> xi \<and> xi < int (length d) then xi else - 1)"
    "currentIndex (h_ybox s') = (if 0 \<le> yi \<and> yi < int (length d) then yi else - 1)"
    by auto
  from h_updateData_keeps[OF run] have "h_xindex s' = h_xindex s" "h_yindex s' = h_yindex s"
    by simp_all
  with d r range cur
  show "\<exists>d. pd (h_filename s) = Inr d \<and> h_data s' = d
         \<and> h_var_names s' = Some (map name d @ [''<none>''])
         \<and> items (h_xbox s') = map name d \<and> items (h_ybox s') = map name d
         \<and> items (h_zbox s') = map name d @ [''<none>'']
         \<and> h_xindex s' = h_xindex s \<and> h_yindex s' = h_yindex s
         \<and> h_zindex s' = int (length d)
         \<and> - int (length d) \<le> xi \<and> xi < int (length d)
         \<and> currentIndex (h_xbox s') = (if 0 \<le> xi \<and> xi < int (length d) then xi else - 1)
         \<and> currentIndex (h_ybox s') = (if 0 \<le> yi \<and> yi < int (length d) then yi else - 1)"
    by (intro exI[of _ d]) simp
next
  assume run: "d_updateData pd ds xi yi yi2 True = Inr ds'"
  from d_updateData_rebuild[OF run] obtain d where d: "pd (d_filename ds) = Inr d"
    and r: "d_data ds' = d" "d_var_names ds' = Some (map name d)"
      "items (d_xbox ds') = map name d" "items (d_ybox ds') = map name d"
      "items (d_ybox2 ds') = map name d"
      "d_xindex ds' = d_xindex ds" "d_yindex ds' = d_yindex ds" "d_yindex2 ds' = d_yindex2 ds"
    by blast
  from d_updateData_Inr[OF run] d obtain xv where "py_index d xi = Inr xv" by auto
  from py_index_Inr_range[OF this] have "- int (length d) \<le> xi \<and> xi < int (length d)" .
  with d r
  show "\<exists>d. pd (d_filename ds) = Inr d \<and> d_data ds' = d
         \<and> d_var_names ds' = Some (map name d)
         \<and> items (d_xbox ds') = map name d \<and> items (d_ybox ds') = map name d
         \<and> items (d_ybox2 ds') = map name d
         \<and> d_xindex ds' = d_xindex ds \<and> d_yindex ds' = d_yindex ds
         \<and> d_yindex2 ds' = d_yindex2 ds
         \<and> - int (length d) \<le> xi \<and> xi < int (length d)"
    by (intro exI[of _ d]) simp
qed

theorem file_switch_rebuilds_selectors_witness:
  "\<exists>s1 ds1.
      h_updateData lab_parse (h_init\<lparr>h_filename := ''/lab/Data/new.csv'', h_yindex := 3\<rparr>)
          0 3 (- 1) True = Inr s1
      \<and> items (h_xbox s1) = [''V1'', ''V2'', ''V3''] \<and> length (h_data s1) = 3
      \<and> h_yindex s1 = 3 \<and> currentIndex (h_ybox s1) = - 1 \<and> h_zindex s1 = 3
      \<and> d_updateData lab_parse (d_init\<lparr>d_filename := ''/lab/Data/sweep_001.csv''\<rparr>) 0 1 2 True
          = Inr ds1
      \<and> items (d_ybox2 ds1) = [''V1'', ''V2'', ''V3''] \<and> d_yindex2 ds1 = 2"
proof -
  let ?h = "h_init\<lparr>h_filename := ''/lab/Data/new.csv'', h_yindex := 3\<rparr>"
  let ?dstart = "d_init\<lparr>d_filename := ''/lab/Data/sweep_001.csv''\<rparr>"
  have "\<exists>s1. h_updateData lab_parse ?h 0 3 (- 1) True = Inr s1"
    by (simp add: run_heatmap)
  then obtain s1 where s1: "h_updateData lab_parse ?h 0 3 (- 1) True = Inr s1" by blast
  from file_switch_rebuilds_selectors[where pd = lab_parse and s = ?h and xi = 0 and yi = 3
      and zi = "- 1" and s' = s1, THEN conjunct1, rule_format, OF s1]
  obtain d where d: "lab_parse (h_filename ?h) = Inr d" and r: "h_data s1 = d"
    "items (h_xbox s1) = map name d" "h_yindex s1 = h_yindex ?h"
    "currentIndex (h_ybox s1) = (if 0 \<le> (3::int) \<and> 3 < int (length d) then 3 else - 1)"
    "h_zindex s1 = int (length d)"
    by blast
  from d have "d = [\<lparr>name = ''V1'', data = []\<rparr>, \<lparr>name = ''V2'', data = []\<rparr>,
      \<lparr>name = ''V3'', data = []\<rparr>]"
    by (simp add: parse_header_only)
  with r have c1: "items (h_xbox s1) = [''V1'', ''V2'', ''V3'']" "length (h_data s1) = 3"
    "h_yindex s1 = 3" "currentIndex (h_ybox s1) = - 1" "h_zindex s1 = 3"
    by simp_all
  have "\<exists>ds1. d_updateData lab_parse ?dstart 0 1 2 True = Inr ds1"
    by (simp add: run_dual)
  then obtain ds1 where ds1: "d_updateData lab_parse ?dstart 0 1 2 True = Inr ds1" by blast
  from file_switch_rebuilds_selectors[where pd = lab_parse and ds = ?dstart and xi = 0
      and yi = 1 and ?yi2.0 = 2 and ds' = ds1, THEN conjunct2, rule_format, OF ds1]
  obtain d' where d': "lab_parse (d_filename ?dstart) = Inr d'"
    and r': "items (d_ybox2 ds1) = map name d'" "d_yindex2 ds1 = d_yindex2 ?dstart"
    by blast
  from d' have "map name d' = [''V1'', ''V2'', ''V3'']"
    by (auto simp: parse_sweep_001)
  with r' have c2: "items (d_ybox2 ds1) = [''V1'', ''V2'', ''V3'']" "d_yindex2 ds1 = 2"
    by (simp_all add: d_init_def)
  from s1 c1 ds1 c2 show ?thesis
    by (intro exI[of _ s1] exI[of _ ds1]) simp
qed

text \<open>
  Claim C9 says that a file with no records is drawn as an empty frame without an error
  for every axis selection.  The dual window starts with the indices 0, 1 and 2.  When
  the newest file has two columns and only its header, the x series is empty, the lines
  are cleared, and the label \<^verbatim>\<open>self.var_names[yindex2]\<close> raises.
\<close>

theorem header_only_default_selection_raises:
  "parse_data_spec two_header_only = Inr [\<lparr>name = ''V'', data = []\<rparr>, \<lparr>name = ''I'', data = []\<rparr>]
   \<and> d_yindex2 d_init = 2
   \<and> d_livePlotting (lab (Some (Dir 50 [(''two_new.csv'', File 100)]))) d_init = Inl IndexError"
  by (simp add: run_dual folder_defs parse_data_spec_def two_header_only_def)

text \<open>
  Claim C9, as the code has it.  A file with a header and no records parses to one series
  per name, each with no samples (the parser as the specification describes it).  On such
  a file, and on any file whose chosen x series has no samples, \<^verbatim>\<open>updateData\<close> of the
  heatmap window and of the dual window returns without an error for every selection
  whose indices lie within the variable list, with or without \<^verbatim>\<open>newFile\<close>: the graph is
  shown, the series are empty and the lines are cleared.  The names the labels are read
  from are those in place after the load, at least one per variable.
\<close>

theorem header_only_file_clears_plot:
  "(records f = [] \<longrightarrow>
      (\<exists>vs. parse_data_spec f = Inr vs \<and> map name vs = header f
           \<and> list_all (\<lambda>v. data v = []) vs))
   \<and> (pd (h_filename s) = Inr d \<and> 0 \<le> xi \<and> xi < int (length d) \<and> data (d ! nat xi) = []
        \<and> 0 \<le> yi \<and> yi < int (length d)
        \<and> h_var_names (h_load s d xi yi nf) = Some vn \<and> length d \<le> length vn \<longrightarrow>
      (\<exists>s'. h_updateData pd s xi yi zi nf = Inr s' \<and> h_graphs s' = GraphWidget
          \<and> h_x s' = [] \<and> h_y s' = [] \<and> h_data_line s' = ([], [])))
   \<and> (pd (d_filename ds) = Inr d \<and> 0 \<le> xi \<and> xi < int (length d) \<and> data (d ! nat xi) = []
        \<and> 0 \<le> yi \<and> yi < int (length d) \<and> 0 \<le> yi2 \<and> yi2 < int (length d)
        \<and> d_var_names (d_load ds d xi yi yi2 nf) = Some vn \<and> length d \<le> length vn \<longrightarrow>
      (\<exists>ds'. d_updateData pd ds xi yi yi2 nf = Inr ds'
          \<and> d_x ds' = [] \<and> d_y ds' = [] \<and> d_y2 ds' = []
          \<and> d_data_line ds' = ([], []) \<and> d_data_line2 ds' = ([], [])))"
proof (intro conjI impI)
  assume "records f = []"
  then show "\<exists>vs. parse_data_spec f = Inr vs \<and> map name vs = header f
           \<and> list_all (\<lambda>v. data v = []) vs"
    by (rule parse_data_spec_no_records)
next
  assume a: "pd (h_filename s) = Inr d \<and> 0 \<le> xi \<and> xi < int (length d) \<and> data (d ! nat xi) = []
        \<and> 0 \<le> yi \<and> yi < int (length d)
        \<and> h_var_names (h_load s d xi yi nf) = Some vn \<and> length d \<le> length vn"
  then have xv: "py_index d xi = Inr (d ! nat xi)"
    and lx: "py_index vn xi = Inr (vn ! nat xi)" and ly: "py_index vn yi = Inr (vn ! nat yi)"
    by (simp_all add: py_index_valid)
  from a xv lx ly have "h_updateData pd s xi yi zi nf =
     Inr ((h_load s d xi yi nf)\<lparr>h_graphs := GraphWidget, h_x := [], h_y := [],
            h_data_line := ([], []),
            h_graph_labels := (vn ! nat xi, vn ! nat yi),
            h_image_labels := (vn ! nat xi, vn ! nat yi)\<rparr>)"
    using h_updateData_empty[of pd s d xi "d ! nat xi" yi nf vn "vn ! nat xi" "vn ! nat yi" zi]
    by blast
  then show "\<exists>s'. h_updateData pd s xi yi zi nf = Inr s' \<and> h_graphs s' = GraphWidget
          \<and> h_x s' = [] \<and> h_y s' = [] \<and> h_data_line s' = ([], [])"
    by simp
next
  assume a: "pd (d_filename ds) = Inr d \<and> 0 \<le> xi \<and> xi < int (length d) \<and> data (d ! nat xi) = []
        \<and> 0 \<le> yi \<and> yi < int (length d) \<and> 0 \<le> yi2 \<and> yi2 < int (length d)
        \<and> d_var_names (d_load ds d xi yi yi2 nf) = Some vn \<and> length d \<le> length vn"
  then have xv: "py_index d xi = Inr (d ! nat xi)"
    and lx: "py_index vn xi = Inr (vn ! nat xi)" and ly: "py_index vn yi = Inr (vn ! nat yi)"
    and ly2: "py_index vn yi2 = Inr (vn ! nat yi2)"
    by (simp_all add: py_index_valid)
  from a xv lx ly ly2 have "d_updateData pd ds xi yi yi2 nf =
     Inr ((d_load ds d xi yi yi2 nf)\<lparr>d_x := [], d_y := [], d_y2 := [],
            d_data_line := ([], []), d_data_line2 := ([], []),
            d_labels := (vn ! nat xi, ''1: '' @ vn ! nat yi @ '', 2: '' @ vn ! nat yi2)\<rparr>)"
    using d_updateData_empty[of pd ds d xi "d ! nat xi" yi yi2 nf vn "vn ! nat xi" "vn ! nat yi"
        "vn ! nat yi2"]
    by blast
  then show "\<exists>ds'. d_updateData pd ds xi yi yi2 nf = Inr ds'
          \<and> d_x ds' = [] \<and> d_y ds' = [] \<and> d_y2 ds' = []
          \<and> d_data_line ds' = ([], []) \<and> d_data_line2 ds' = ([], [])"
    by simp
qed

theorem header_only_file_clears_plot_witness:
  "(\<exists>vs. parse_data_spec header_only = Inr vs \<and> map name vs = [''V1'', ''V2'', ''V3'']
        \<and> list_all (\<lambda>v. data v = []) vs)
   \<and> (\<exists>s'. h_livePlotting (lab (Some (Dir 50 [(''new.csv'', File 100)]))) h_init = Inr s'
        \<and> h_filename s' = ''/lab/Data/new.csv'' \<and> h_data_line s' = ([], []))
   \<and> (\<exists>s'. h_updateData lab_parse (h_init\<lparr>h_filename := ''/lab/Data/new.csv''\<rparr>) 0 1 (- 1) True
          = Inr s'
        \<and> h_graphs s' = GraphWidget \<and> h_x s' = [] \<and> h_y s' = [] \<and> h_data_line s' = ([], []))
   \<and> (\<exists>ds'. d_updateData lab_parse (d_init\<lparr>d_filename := ''/lab/Data/new.csv''\<rparr>) 0 1 2 True
          = Inr ds'
        \<and> d_x ds' = [] \<and> d_y ds' = [] \<and> d_y2 ds' = []
        \<and> d_data_line ds' = ([], []) \<and> d_data_line2 ds' = ([], []))"
proof -
  let ?h = "h_init\<lparr>h_filename := ''/lab/Data/new.csv''\<rparr>"
  let ?dstart = "d_init\<lparr>d_filename := ''/lab/Data/new.csv''\<rparr>"
  let ?d = "[\<lparr>name = ''V1'', data = []\<rparr>, \<lparr>name = ''V2'', data = []\<rparr>, \<lparr>name = ''V3'', data = []\<rparr>]"
  have rec: "records header_only = []" and hd: "header header_only = [''V1'', ''V2'', ''V3'']"
    by (simp_all add: header_only_def)
  from header_only_file_clears_plot[where f = header_only, THEN conjunct1, rule_format, OF rec] hd
  have part1: "\<exists>vs. parse_data_spec header_only = Inr vs \<and> map name vs = [''V1'', ''V2'', ''V3'']
        \<and> list_all (\<lambda>v. data v = []) vs"
    by simp
  have part2: "\<exists>s'. h_livePlotting (lab (Some (Dir 50 [(''new.csv'', File 100)]))) h_init = Inr s'
        \<and> h_filename s' = ''/lab/Data/new.csv'' \<and> h_data_line s' = ([], [])"
    by (simp add: run_heatmap folder_defs)
  have pdh: "lab_parse (h_filename ?h) = Inr ?d" by (simp add: parse_header_only)
  have pdd: "lab_parse (d_filename ?dstart) = Inr ?d" by (simp add: parse_header_only)
  have sel: "(0::int) \<le> 0" "0 < int (length ?d)" "(0::int) \<le> 1" "1 < int (length ?d)"
    "(0::int) \<le> 2" "2 < int (length ?d)" "data (?d ! nat 0) = []"
    by simp_all
  have vnh: "h_var_names (h_load ?h ?d 0 1 True) = Some [''V1'', ''V2'', ''V3'', ''<none>'']"
    by (simp add: h_load_newFile)
  have vnd: "d_var_names (d_load ?dstart ?d 0 1 2 True) = Some [''V1'', ''V2'', ''V3'']"
    by (simp add: d_load_newFile)
  have lens: "length ?d \<le> length [''V1'', ''V2'', ''V3'', ''<none>'']"
    "length ?d \<le> length [''V1'', ''V2'', ''V3'']"
    by simp_all
  from header_only_file_clears_plot[where pd = lab_parse and s = ?h and d = ?d and xi = 0
      and yi = 1 and nf = True and vn = "[''V1'', ''V2'', ''V3'', ''<none>'']" and zi = "- 1",
      THEN conjunct2, THEN conjunct1, rule_format] pdh sel vnh lens
  have part3: "\<exists>s'. h_updateData lab_parse ?h 0 1 (- 1) True = Inr s'
        \<and> h_graphs s' = GraphWidget \<and> h_x s' = [] \<and> h_y s' = [] \<and> h_data_line s' = ([], [])"
    by blast
  from header_only_file_clears_plot[where pd = lab_parse and ds = ?dstart and d = ?d and xi = 0
      and yi = 1 and ?yi2.0 = 2 and nf = True and vn = "[''V1'', ''V2'', ''V3'']",
      THEN conjunct2, THEN conjunct2, rule_format] pdd sel vnd lens
  have part4: "\<exists>ds'. d_updateData lab_parse ?dstart 0 1 2 True = Inr ds'
        \<and> d_x ds' = [] \<and> d_y ds' = [] \<and> d_y2 ds' = []
        \<and> d_data_line ds' = ([], []) \<and> d_data_line2 ds' = ([], [])"
    by blast
  from part1 part2 part3 part4 show ?thesis by (intro conjI)
qed

text \<open>
  Claim C10.  In the heatmap window every \<^verbatim>\<open>updateData\<close> with \<^verbatim>\<open>newFile\<close> sets the value
  index to the position of \<^verbatim>\<open><none>\<close>, whatever it was.  The two callers that switch
  files, the poll tick that finds another path and the file dialog, pass no value
  index, so the window shows the line plot afterwards and the image is not touched.
\<close>

theorem new_file_selects_none_entry:
  "(h_updateData pd s xi yi zi True = Inr s' \<longrightarrow>
      (\<exists>d. pd (h_filename s) = Inr d
         \<and> h_var_names s' = Some (map name d @ [''<none>''])
         \<and> items (h_zbox s') = map name d @ [''<none>'']
         \<and> h_zindex s' = int (length d) \<and> currentIndex (h_zbox s') = int (length d)))
   \<and> (latest_file_walk w = Inr f \<and> f \<noteq> [] \<and> abspath (cwd w) f \<noteq> h_filename s
        \<and> h_livePlotting w s = Inr s' \<longrightarrow>
      h_filename s' = abspath (cwd w) f \<and> h_graphs s' = GraphWidget
        \<and> h_image s' = h_image s \<and> h_data_line s' = (h_x s', h_y s')
        \<and> (\<exists>d. parse_of w (abspath (cwd w) f) = Inr d \<and> h_zindex s' = int (length d)
              \<and> h_var_names s' = Some (map name d @ [''<none>''])))
   \<and> (fileName \<noteq> [] \<and> h_openFileNameDialog w s fileName = Inr s' \<longrightarrow>
      h_filename s' = fileName \<and> h_graphs s' = GraphWidget
        \<and> h_image s' = h_image s \<and> h_data_line s' = (h_x s', h_y s')
        \<and> (\<exists>d. parse_of w fileName = Inr d \<and> h_zindex s' = int (length d)
              \<and> h_var_names s' = Some (map name d @ [''<none>''])))"
proof (intro conjI impI)
  assume "h_updateData pd s xi yi zi True = Inr s'"
  from h_updateData_rebuild[OF this]
  show "\<exists>d. pd (h_filename s) = Inr d
         \<and> h_var_names s' = Some (map name d @ [''<none>''])
         \<and> items (h_zbox s') = map name d @ [''<none>'']
         \<and> h_zindex s' = int (length d) \<and> currentIndex (h_zbox s') = int (length d)"
    by blast
next
  assume a: "latest_file_walk w = Inr f \<and> f \<noteq> [] \<and> abspath (cwd w) f \<noteq> h_filename s
        \<and> h_livePlotting w s = Inr s'"
  let ?s1 = "s\<lparr>h_filename := abspath (cwd w) f\<rparr>"
  from a have "and_then (h_updateData (parse_of w) ?s1 (h_xindex s) (h_yindex s) (- 1) True)
       (\<lambda>s2. Inr (s2\<lparr>h_file_path := h_filename s2\<rparr>)) = Inr s'"
    using h_livePlotting_new[of w f s] by simp
  then obtain s2 where run: "h_updateData (parse_of w) ?s1 (h_xindex s) (h_yindex s) (- 1) True = Inr s2"
    and s': "s' = s2\<lparr>h_file_path := h_filename s2\<rparr>"
    by (auto simp: and_then_eq_Inr)
  from h_updateData_rebuild[OF run] obtain d where d: "parse_of w (abspath (cwd w) f) = Inr d"
    and vn: "h_var_names s2 = Some (map name d @ [''<none>''])"
    and zi: "h_zindex s2 = int (length d)"
    by auto
  from h_updateData_sentinel[OF run vn] have "h_graphs s2 = GraphWidget \<and> h_image s2 = h_image s
     \<and> h_data_line s2 = (h_x s2, h_y s2)"
    by simp
  moreover from h_updateData_keeps[OF run] have "h_filename s2 = abspath (cwd w) f" by simp
  ultimately show "h_filename s' = abspath (cwd w) f" "h_graphs s' = GraphWidget"
    "h_image s' = h_image s" "h_data_line s' = (h_x s', h_y s')"
    "\<exists>d. parse_of w (abspath (cwd w) f) = Inr d \<and> h_zindex s' = int (length d)
              \<and> h_var_names s' = Some (map name d @ [''<none>''])"
    using s' d vn zi by simp_all
next
  assume a: "fileName \<noteq> [] \<and> h_openFileNameDialog w s fileName = Inr s'"
  let ?s1 = "s\<lparr>h_livePlot := False, h_filename := fileName\<rparr>"
  from a have "and_then (h_updateData (parse_of w) ?s1 (h_xindex s) (h_yindex s) (- 1) True)
       (\<lambda>s2. Inr (s2\<lparr>h_file_path := h_filename s2\<rparr>)) = Inr s'"
    using h_openFileNameDialog_chosen[of fileName w s] by simp
  then obtain s2 where run: "h_updateData (parse_of w) ?s1 (h_xindex s) (h_yindex s) (- 1) True = Inr s2"
    and s': "s' = s2\<lparr>h_file_path := h_filename s2\<rparr>"
    by (auto simp: and_then_eq_Inr)
  from h_updateData_rebuild[OF run] obtain d where d: "parse_of w fileName = Inr d"
    and vn: "h_var_names s2 = Some (map name d @ [''<none>''])"
    and zi: "h_zindex s2 = int (length d)"
    by auto
  from h_updateData_sentinel[OF run vn] have "h_graphs s2 = GraphWidget \<and> h_image s2 = h_image s
     \<and> h_data_line s2 = (h_x s2, h_y s2)"
    by simp
  moreover from h_updateData_keeps[OF run] have "h_filename s2 = fileName" by simp
  ultimately show "h_filename s' = fileName" "h_graphs s' = GraphWidget"
    "h_image s' = h_image s" "h_data_line s' = (h_x s', h_y s')"
    "\<exists>d. parse_of w fileName = Inr d \<and> h_zindex s' = int (length d)
              \<and> h_var_names s' = Some (map name d @ [''<none>''])"
    using s' d vn zi by simp_all
qed

theorem new_file_selects_none_entry_witness:
  "\<exists>s2 s3 s4 s5.
      and_then (h_openFileNameDialog (lab None) h_init ''/lab/Data/grid.csv'')
        (\<lambda>s. h_zboxindex lab_parse s 2) = Inr s2
      \<and> h_graphs s2 = ImageWidget \<and> h_zindex s2 = 2
      \<and> h_livePlotting (lab (Some (Dir 50 [(''grid.csv'', File 100), (''sweep_001.csv'', File 200)]))) s2
          = Inr s3
      \<and> h_filename s3 = ''/lab/Data/sweep_001.csv'' \<and> h_graphs s3 = GraphWidget
      \<and> h_zindex s3 = 3 \<and> h_var_names s3 = Some [''V1'', ''V2'', ''V3'', ''<none>'']
      \<and> h_openFileNameDialog (lab None) h_init ''/lab/Data/sweep_001.csv'' = Inr s4
      \<and> h_graphs s4 = GraphWidget \<and> h_zindex s4 = 3
      \<and> h_updateData lab_parse s2 0 1 2 True = Inr s5 \<and> h_zindex s5 = 3"
proof -
  let ?start = "and_then (h_openFileNameDialog (lab None) h_init ''/lab/Data/grid.csv'')
        (\<lambda>s. h_zboxindex lab_parse s 2)"
  let ?w = "lab (Some (Dir 50 [(''grid.csv'', File 100), (''sweep_001.csv'', File 200)]))"
  let ?f = "''/lab/Data/sweep_001.csv''"
  let ?d = "[\<lparr>name = ''V1'', data = [0, 0, 1]\<rparr>, \<lparr>name = ''V2'', data = [1, 3, 5]\<rparr>,
          \<lparr>name = ''V3'', data = [2, 4, 6 :: real]\<rparr>]"
  from grid_image_window obtain s2 where s2: "?start = Inr s2"
    and shown: "h_graphs s2 = ImageWidget" and z2: "h_zindex s2 = 2"
    and file2: "h_filename s2 = ''/lab/Data/grid.csv''"
    by blast
  have latest: "latest_file_walk ?w = Inr ''Data/sweep_001.csv''"
    by (simp add: folder_defs lab_def)
  have path: "abspath (cwd ?w) ''Data/sweep_001.csv'' = ?f"
    by (simp add: abspath_def path_join_def lab_def)
  have parse: "parse_of ?w = lab_parse" "parse_of (lab None) = lab_parse"
    by (simp_all add: lab_def)
  have "\<exists>s3. and_then ?start (\<lambda>s. h_livePlotting ?w s) = Inr s3"
    by (simp add: run_heatmap folder_defs)
  then obtain s3 where s3: "h_livePlotting ?w s2 = Inr s3"
    unfolding s2 and_then_Inr by blast
  from new_file_selects_none_entry[where w = ?w and f = "''Data/sweep_001.csv''" and s = s2
      and s' = s3, THEN conjunct2, THEN conjunct1, rule_format] latest path file2 s3
  obtain d where c3: "h_filename s3 = ?f" "h_graphs s3 = GraphWidget"
    and d: "parse_of ?w ?f = Inr d" "h_zindex s3 = int (length d)"
      "h_var_names s3 = Some (map name d @ [''<none>''])"
    by auto
  from d(1) have "d = ?d" by (simp add: parse parse_sweep_001)
  with d have d3: "h_zindex s3 = 3" "h_var_names s3 = Some [''V1'', ''V2'', ''V3'', ''<none>'']"
    by simp_all
  have "\<exists>s4. h_openFileNameDialog (lab None) h_init ?f = Inr s4"
    by (simp add: run_heatmap)
  then obtain s4 where s4: "h_openFileNameDialog (lab None) h_init ?f = Inr s4" by blast
  from new_file_selects_none_entry[where w = "lab None" and fileName = ?f and s = h_init
      and s' = s4, THEN conjunct2, THEN conjunct2, rule_format] s4
  obtain d' where c4: "h_graphs s4 = GraphWidget"
    and d': "parse_of (lab None) ?f = Inr d'" "h_zindex s4 = int (length d')"
    by auto
  from d'(1) have "d' = ?d" by (simp add: parse parse_sweep_001)
  with d' have d4: "h_zindex s4 = 3" by simp
  have "\<exists>s5. and_then ?start (\<lambda>s. h_updateData lab_parse s 0 1 2 True) = Inr s5"
    by (simp add: run_heatmap)
  then obtain s5 where s5: "h_updateData lab_parse s2 0 1 2 True = Inr s5"
    unfolding s2 and_then_Inr by blast
  from new_file_selects_none_entry[where pd = lab_parse and s = s2 and xi = 0 and yi = 1
      and zi = 2 and s' = s5, THEN conjunct1, rule_format] s5 file2
  obtain d5 where "lab_parse ''/lab/Data/grid.csv'' = Inr d5" "h_zindex s5 = int (length d5)"
    by auto
  then have d5: "h_zindex s5 = 3" by (auto simp: parse_grid_sweep)
  from s2 shown z2 s3 c3 d3 s4 c4 d4 s5 d5 show ?thesis
    by (intro exI[of _ s2] exI[of _ s3] exI[of _ s4] exI[of _ s5]) simp
qed

end
